theory Spec2Isabelle
  imports Complex_Main "HOL-Library.Product_Lexorder" "HOL-Library.Sublist" "HOL-Library.Multiset"
begin

section \<open>The air-quality summarizer of \<^verbatim>\<open>src/app.py\<close>\<close>

text \<open>
  The only locally written logic of the repository is \<^verbatim>\<open>analyze_air_quality_csv\<close>
  (\<^verbatim>\<open>src/app.py\<close>, lines 24 to 71). It is a straight-line program over a pandas
  data frame. The embedding starts from the frame that \<^verbatim>\<open>pd.read_csv\<close> returned
  and follows the function statement by statement.

  A frame is a list of named columns in load order; two columns may bear the same name.
  A column carries its dtype, as in pandas: numeric (\<^verbatim>\<open>int64\<close> or \<^verbatim>\<open>float64\<close>,
  a missing value is \<^verbatim>\<open>NaN\<close>), boolean, object (Python objects: text, booleans,
  numbers; a missing value is \<^verbatim>\<open>NaN\<close>) or datetime (a missing value is
  \<^verbatim>\<open>NaT\<close>). A numeric cell is a finite number or missing.

  What the function calls and does not define is a parameter of the embedding, the record
  \<open>lib\<close>: the string methods \<^verbatim>\<open>strip\<close> and \<^verbatim>\<open>lower\<close> (which work on all of
  Unicode), \<^verbatim>\<open>pd.to_datetime\<close>, the sort that \<^verbatim>\<open>sort_values\<close> applies to the
  dates (of which only the result, not the order of equal dates, is known), the means of
  pandas (computed in \<^verbatim>\<open>float64\<close>), the arithmetic of lines 57 to 61 on their
  results, and the format \<^verbatim>\<open>:.2f\<close>. A result of type \<open>'r\<close> stands for a Python
  float, \<^verbatim>\<open>inf\<close> and \<^verbatim>\<open>nan\<close> included. The theorems hold for every such record,
  under the hypotheses they name. \<^verbatim>\<open>DataFrame.to_string(index=False)\<close> is a parameter
  \<open>ts\<close> from frames to text.

  What is fixed in the embedding is the shape of the pandas calls:
  \<^item> \<^verbatim>\<open>df[name]\<close> is a Series when one column bears the name and a frame when several do;
    \<^verbatim>\<open>pd.to_datetime\<close> raises \<^verbatim>\<open>ValueError\<close> on such a frame, and with
    \<^verbatim>\<open>errors="coerce"\<close> returns a value or \<^verbatim>\<open>NaT\<close> for every row of a Series;
  \<^item> \<^verbatim>\<open>sort_values\<close> puts the rows without a date last, in load order, before them
    the others in the order the sort gives;
  \<^item> \<^verbatim>\<open>DataFrame.mean(numeric_only=True)\<close> drops every column that is not of numeric
    or boolean dtype, and \<^verbatim>\<open>to_dict\<close> keeps for a repeated name the first place and the
    last value.
\<close>

subsection \<open>Data model\<close>

type_synonym date = "nat \<times> nat \<times> nat"
  \<comment> \<open>year, month, day\<close>

type_synonym datetime = "date \<times> nat"
  \<comment> \<open>calendar date and time of day; the order is the lexicographic one\<close>

datatype obj = Str string | Bool bool | Number rat
  \<comment> \<open>what a cell of an object column holds\<close>

datatype column =
    NumCol "rat option list"
  | BoolCol "bool list"
  | ObjCol "obj option list"
  | DateCol "datetime option list"

type_synonym frame = "(string \<times> column) list"

datatype error = KeyError | TypeError | ValueError

datatype selection = Series column | Frame "column list"
  \<comment> \<open>what \<^verbatim>\<open>df[name]\<close> is\<close>

datatype line = Text string | ToString frame
  \<comment> \<open>an element of \<^verbatim>\<open>desc\<close>: literal text, or the rendering of a frame by
      \<^verbatim>\<open>to_string(index=False)\<close>, which is applied when the report is joined\<close>

record 'r lib =
  str_strip :: "string \<Rightarrow> string"
    \<comment> \<open>\<^verbatim>\<open>str.strip()\<close>\<close>
  str_lower :: "string \<Rightarrow> string"
    \<comment> \<open>\<^verbatim>\<open>str.lower()\<close>\<close>
  to_dt :: "column \<Rightarrow> nat \<Rightarrow> datetime option"
    \<comment> \<open>\<^verbatim>\<open>pd.to_datetime(c, errors="coerce")\<close>: the value at a row of the Series\<close>
  argsort :: "datetime list \<Rightarrow> nat list"
    \<comment> \<open>the positions of the dates in the order of the sort\<close>
  frame_mean :: "column \<Rightarrow> 'r"
    \<comment> \<open>what \<^verbatim>\<open>DataFrame.mean(numeric_only=True)\<close> gives for a column it keeps\<close>
  series_mean :: "column \<Rightarrow> error + 'r"
    \<comment> \<open>\<^verbatim>\<open>Series.mean()\<close>, which may raise\<close>
  notna :: "'r \<Rightarrow> bool"
    \<comment> \<open>\<^verbatim>\<open>pd.notna(x)\<close>\<close>
  sub :: "'r \<Rightarrow> 'r \<Rightarrow> 'r"
    \<comment> \<open>\<^verbatim>\<open>x - y\<close>\<close>
  abs_lt_eps :: "'r \<Rightarrow> bool"
    \<comment> \<open>\<^verbatim>\<open>abs(x) < 1e-6\<close>\<close>
  lt_zero :: "'r \<Rightarrow> bool"
    \<comment> \<open>\<^verbatim>\<open>x < 0\<close>\<close>
  fmt_2f :: "'r \<Rightarrow> string"
    \<comment> \<open>\<^verbatim>\<open>f"{x:.2f}"\<close>\<close>

fun col_len :: "column \<Rightarrow> nat" where
  "col_len (NumCol xs) = length xs"
| "col_len (BoolCol xs) = length xs"
| "col_len (ObjCol xs) = length xs"
| "col_len (DateCol xs) = length xs"

definition columns :: "frame \<Rightarrow> string list" where
  "columns df = map fst df"

definition len_df :: "frame \<Rightarrow> nat" where
  \<comment> \<open>\<^verbatim>\<open>len(df)\<close>: the number of rows\<close>
  "len_df df = (case df of [] \<Rightarrow> 0 | (_, c) # _ \<Rightarrow> col_len c)"

definition cols_named :: "frame \<Rightarrow> string \<Rightarrow> column list" where
  \<comment> \<open>the columns that bear a name, in load order\<close>
  "cols_named df name = map snd (filter (\<lambda>p. fst p = name) df)"

definition getitem :: "frame \<Rightarrow> string \<Rightarrow> error + selection" where
  \<comment> \<open>\<^verbatim>\<open>df[name]\<close>\<close>
  "getitem df name =
     (case cols_named df name of
        [] \<Rightarrow> Inl KeyError
      | [c] \<Rightarrow> Inr (Series c)
      | cs \<Rightarrow> Inr (Frame cs))"

fun getitems :: "frame \<Rightarrow> string list \<Rightarrow> error + frame" where
  \<comment> \<open>\<^verbatim>\<open>df[names]\<close>: for each name in turn, the columns that bear it\<close>
  "getitems df [] = Inr []"
| "getitems df (n # ns) =
     (case cols_named df n of
        [] \<Rightarrow> Inl KeyError
      | cs \<Rightarrow> (case getitems df ns of Inl e \<Rightarrow> Inl e | Inr rest \<Rightarrow> Inr (map (Pair n) cs @ rest)))"

definition setitem :: "frame \<Rightarrow> string \<Rightarrow> column \<Rightarrow> frame" where
  \<comment> \<open>\<^verbatim>\<open>df[name] = c\<close> for a column that exists: replaced in place\<close>
  "setitem df name c = map (\<lambda>(n, old). if n = name then (n, c) else (n, old)) df"

subsection \<open>Line 26: column names are stripped and lower-cased\<close>

definition rename_columns :: "'r lib \<Rightarrow> frame \<Rightarrow> frame" where
  "rename_columns L df = map (\<lambda>(n, c). (str_lower L (str_strip L n), c)) df"

subsection \<open>Lines 28 to 35: the date column\<close>

definition DATE_CANDIDATES :: "string list" where
  "DATE_CANDIDATES = [''date'', ''timestamp'', ''day'', ''datetime'']"

definition detect_date_col :: "frame \<Rightarrow> string option" where
  "detect_date_col df = find (\<lambda>cand. cand \<in> set (columns df)) DATE_CANDIDATES"

definition parse_column :: "'r lib \<Rightarrow> column \<Rightarrow> datetime option list" where
  \<comment> \<open>the parsed value of every row, in row order\<close>
  "parse_column L c = map (to_dt L c) [0..<col_len c]"

definition to_datetime :: "'r lib \<Rightarrow> selection \<Rightarrow> error + column" where
  \<comment> \<open>line 34, on what \<^verbatim>\<open>df[date_col]\<close> is\<close>
  "to_datetime L sel =
     (case sel of
        Series c \<Rightarrow> Inr (DateCol (parse_column L c))
      | Frame cs \<Rightarrow> Inl ValueError)"

definition nargsort :: "'r lib \<Rightarrow> datetime option list \<Rightarrow> nat list" where
  \<comment> \<open>the row order of \<^verbatim>\<open>sort_values\<close>: the rows with a date as the sort orders them,
      then the rows without\<close>
  "nargsort L ds =
     (let idx = [0..<length ds];
          non_nan = filter (\<lambda>i. ds ! i \<noteq> None) idx;
          nan_idx = filter (\<lambda>i. ds ! i = None) idx
      in map (\<lambda>j. non_nan ! j) (argsort L (map (\<lambda>i. the (ds ! i)) non_nan)) @ nan_idx)"

fun take_rows :: "nat list \<Rightarrow> column \<Rightarrow> column" where
  "take_rows p (NumCol xs) = NumCol (map (\<lambda>i. xs ! i) p)"
| "take_rows p (BoolCol xs) = BoolCol (map (\<lambda>i. xs ! i) p)"
| "take_rows p (ObjCol xs) = ObjCol (map (\<lambda>i. xs ! i) p)"
| "take_rows p (DateCol xs) = DateCol (map (\<lambda>i. xs ! i) p)"

definition sort_values :: "'r lib \<Rightarrow> frame \<Rightarrow> string \<Rightarrow> error + frame" where
  \<comment> \<open>\<^verbatim>\<open>df.sort_values(by=name)\<close> for a datetime column\<close>
  "sort_values L df name =
     (case getitem df name of
        Inl e \<Rightarrow> Inl e
      | Inr (Series (DateCol ds)) \<Rightarrow> Inr (map (\<lambda>(n, c). (n, take_rows (nargsort L ds) c)) df)
      | Inr _ \<Rightarrow> Inl ValueError)"

definition parse_and_sort :: "'r lib \<Rightarrow> frame \<Rightarrow> string option \<Rightarrow> error + frame" where
  \<comment> \<open>lines 33 to 35\<close>
  "parse_and_sort L df date_col =
     (case date_col of
        None \<Rightarrow> Inr df
      | Some dc \<Rightarrow>
          (case getitem df dc of
             Inl e \<Rightarrow> Inl e
           | Inr sel \<Rightarrow>
               (case to_datetime L sel of
                  Inl e \<Rightarrow> Inl e
                | Inr c \<Rightarrow> sort_values L (setitem df dc c) dc)))"

subsection \<open>Slices and reductions of pandas\<close>

fun head_col :: "nat \<Rightarrow> column \<Rightarrow> column" where
  "head_col k (NumCol xs) = NumCol (take k xs)"
| "head_col k (BoolCol xs) = BoolCol (take k xs)"
| "head_col k (ObjCol xs) = ObjCol (take k xs)"
| "head_col k (DateCol xs) = DateCol (take k xs)"

fun tail_col :: "nat \<Rightarrow> column \<Rightarrow> column" where
  "tail_col k (NumCol xs) = NumCol (drop (length xs - k) xs)"
| "tail_col k (BoolCol xs) = BoolCol (drop (length xs - k) xs)"
| "tail_col k (ObjCol xs) = ObjCol (drop (length xs - k) xs)"
| "tail_col k (DateCol xs) = DateCol (drop (length xs - k) xs)"

definition head_df :: "nat \<Rightarrow> frame \<Rightarrow> frame" where
  "head_df k df = map (\<lambda>(n, c). (n, head_col k c)) df"

definition tail_df :: "nat \<Rightarrow> frame \<Rightarrow> frame" where
  "tail_df k df = map (\<lambda>(n, c). (n, tail_col k c)) df"

definition present :: "'a option list \<Rightarrow> 'a list" where
  \<comment> \<open>the values that are not missing\<close>
  "present xs = concat (map (\<lambda>x. case x of None \<Rightarrow> [] | Some v \<Rightarrow> [v]) xs)"

fun notna_any :: "column \<Rightarrow> bool" where
  \<comment> \<open>\<^verbatim>\<open>s.notna().any()\<close>\<close>
  "notna_any (NumCol xs) = (present xs \<noteq> [])"
| "notna_any (BoolCol xs) = (xs \<noteq> [])"
| "notna_any (ObjCol xs) = (present xs \<noteq> [])"
| "notna_any (DateCol xs) = (present xs \<noteq> [])"

fun numeric_dtype :: "column \<Rightarrow> bool" where
  \<comment> \<open>the dtypes that \<^verbatim>\<open>numeric_only=True\<close> keeps\<close>
  "numeric_dtype (NumCol xs) = True"
| "numeric_dtype (BoolCol xs) = True"
| "numeric_dtype (ObjCol xs) = False"
| "numeric_dtype (DateCol xs) = False"

definition frame_means :: "'r lib \<Rightarrow> frame \<Rightarrow> (string \<times> 'r) list" where
  \<comment> \<open>\<^verbatim>\<open>df.mean(numeric_only=True)\<close>: one entry for every column kept, in column order\<close>
  "frame_means L df = map (\<lambda>(n, c). (n, frame_mean L c)) (filter (\<lambda>(n, c). numeric_dtype c) df)"

function to_dict :: "('k \<times> 'v) list \<Rightarrow> ('k \<times> 'v) list" where
  \<comment> \<open>\<^verbatim>\<open>Series.to_dict()\<close>, as the list of its items: a key stands where it first
      occurs, with the value of its last occurrence\<close>
  "to_dict [] = []"
| "to_dict ((k, v) # kvs) =
     (k, last (v # map snd (filter (\<lambda>p. fst p = k) kvs))) #
     to_dict (filter (\<lambda>p. fst p \<noteq> k) kvs)"
  by pat_completeness auto

termination to_dict
  by (relation "measure length") (auto simp: less_Suc_eq_le)

definition date_values :: "frame \<Rightarrow> string \<Rightarrow> error + datetime option list" where
  \<comment> \<open>\<^verbatim>\<open>df[date_col]\<close> read as a datetime series\<close>
  "date_values df name =
     (case getitem df name of
        Inl e \<Rightarrow> Inl e
      | Inr (Series (DateCol ds)) \<Rightarrow> Inr ds
      | Inr _ \<Rightarrow> Inl ValueError)"

definition series_min :: "datetime option list \<Rightarrow> datetime option" where
  "series_min ds = (case present ds of [] \<Rightarrow> None | d # rest \<Rightarrow> Some (fold min rest d))"

definition series_max :: "datetime option list \<Rightarrow> datetime option" where
  "series_max ds = (case present ds of [] \<Rightarrow> None | d # rest \<Rightarrow> Some (fold max rest d))"

subsection \<open>Formatting\<close>

definition digit_char :: "nat \<Rightarrow> char" where
  "digit_char d = ''0123456789'' ! (d mod 10)"

fun show_nat :: "nat \<Rightarrow> string" where
  "show_nat n = (if n < 10 then [digit_char n] else show_nat (n div 10) @ [digit_char (n mod 10)])"

declare show_nat.simps [simp del]

definition zfill :: "nat \<Rightarrow> string \<Rightarrow> string" where
  "zfill w s = replicate (w - length s) (CHR ''0'') @ s"

definition fmt_date :: "date \<Rightarrow> string" where
  \<comment> \<open>\<^verbatim>\<open>str(datetime.date)\<close>\<close>
  "fmt_date d = (case d of (y, m, dd) \<Rightarrow>
     zfill 4 (show_nat y) @ ''-'' @ zfill 2 (show_nat m) @ ''-'' @ zfill 2 (show_nat dd))"

fun join :: "string \<Rightarrow> string list \<Rightarrow> string" where
  \<comment> \<open>\<^verbatim>\<open>sep.join(xs)\<close>\<close>
  "join sep [] = []"
| "join sep [x] = x"
| "join sep (x # y # ys) = x @ sep @ join sep (y # ys)"

definition ARROW :: string where
  \<comment> \<open>the UTF-8 bytes of U+2192\<close>
  "ARROW = [CHR 0xE2, CHR 0x86, CHR 0x92]"

subsection \<open>Lines 37 to 71: the report\<close>

definition VOCABULARY :: "string list" where
  "VOCABULARY = [''pm25'', ''pm2_5'', ''pm10'', ''no2'', ''so2'', ''co'', ''o3'', ''aqi'']"

definition pollutants_of :: "frame \<Rightarrow> string list" where
  "pollutants_of df = filter (\<lambda>c. c \<in> set (columns df)) VOCABULARY"

definition rows_line :: "frame \<Rightarrow> line" where
  "rows_line df = Text (''Rows: '' @ show_nat (len_df df))"

definition has_dates :: "frame \<Rightarrow> string option \<Rightarrow> error + bool" where
  \<comment> \<open>\<^verbatim>\<open>date_col and df[date_col].notna().any()\<close>; on a frame the truth value
      raises\<close>
  "has_dates df date_col =
     (case date_col of
        None \<Rightarrow> Inr False
      | Some dc \<Rightarrow>
          (case getitem df dc of
             Inl e \<Rightarrow> Inl e
           | Inr (Series c) \<Rightarrow> Inr (notna_any c)
           | Inr (Frame cs) \<Rightarrow> Inl ValueError))"

definition fmt_bound :: "datetime option \<Rightarrow> string" where
  \<comment> \<open>\<^verbatim>\<open>x.date() if pd.notna(x) else 'N/A'\<close>\<close>
  "fmt_bound x = (case x of None \<Rightarrow> ''N/A'' | Some (d, t) \<Rightarrow> fmt_date d)"

definition date_range_lines :: "frame \<Rightarrow> string option \<Rightarrow> error + line list" where
  \<comment> \<open>lines 39 to 42\<close>
  "date_range_lines df date_col =
     (case has_dates df date_col of
        Inl e \<Rightarrow> Inl e
      | Inr False \<Rightarrow> Inr []
      | Inr True \<Rightarrow>
          (case date_values df (the date_col) of
             Inl e \<Rightarrow> Inl e
           | Inr ds \<Rightarrow>
               Inr [Text (''Date range: '' @ fmt_bound (series_min ds) @ '' '' @ ARROW @ '' '' @
                          fmt_bound (series_max ds))]))"

definition means_entry :: "'r lib \<Rightarrow> string \<times> 'r \<Rightarrow> string" where
  "means_entry L kv = fst kv @ ''='' @ fmt_2f L (snd kv)"

definition means_line :: "'r lib \<Rightarrow> frame \<Rightarrow> string list \<Rightarrow> error + line" where
  \<comment> \<open>lines 45 to 47\<close>
  "means_line L df pols =
     (case getitems df pols of
        Inl e \<Rightarrow> Inl e
      | Inr sel \<Rightarrow>
          Inr (Text (''Means: '' @ join ''; '' (map (means_entry L) (to_dict (frame_means L sel))))))"

definition slice_mean :: "'r lib \<Rightarrow> frame \<Rightarrow> string \<Rightarrow> error + 'r" where
  \<comment> \<open>\<^verbatim>\<open>head[pol].mean()\<close>. When two columns bear the name this is the mean of a frame:
      it raises, or it is a Series, on which line 57 raises. Both are caught at line 63.\<close>
  "slice_mean L df pol =
     (case getitem df pol of
        Inl e \<Rightarrow> Inl e
      | Inr (Series c) \<Rightarrow> series_mean L c
      | Inr (Frame cs) \<Rightarrow> Inl ValueError)"

definition trend_label :: "'r lib \<Rightarrow> string \<Rightarrow> 'r \<Rightarrow> string" where
  \<comment> \<open>lines 61 and 62\<close>
  "trend_label L pol delta =
     pol @ '': '' @ (if lt_zero L delta then ''decreasing'' else ''increasing'') @
     '' (~'' @ fmt_2f L delta @ '')''"

definition trend_try :: "'r lib \<Rightarrow> frame \<Rightarrow> frame \<Rightarrow> string \<Rightarrow> error + string list" where
  \<comment> \<open>the body of the \<^verbatim>\<open>try\<close> of lines 56 to 62: the messages it appends, or what it
      raises\<close>
  "trend_try L hd_df tl_df pol =
     (case slice_mean L hd_df pol of
        Inl e \<Rightarrow> Inl e
      | Inr h \<Rightarrow>
     (case slice_mean L tl_df pol of
        Inl e \<Rightarrow> Inl e
      | Inr t \<Rightarrow>
          if notna L h \<and> notna L t then
            (let delta = sub L t h
             in if abs_lt_eps L delta then Inr [] else Inr [trend_label L pol delta])
          else Inr []))"

fun trend_msgs :: "'r lib \<Rightarrow> frame \<Rightarrow> frame \<Rightarrow> string list \<Rightarrow> string list" where
  \<comment> \<open>the loop of lines 54 to 64; \<^verbatim>\<open>except Exception: pass\<close> drops what was raised\<close>
  "trend_msgs L hd_df tl_df [] = []"
| "trend_msgs L hd_df tl_df (pol # pols) =
     (case trend_try L hd_df tl_df pol of Inl e \<Rightarrow> [] | Inr ms \<Rightarrow> ms) @
     trend_msgs L hd_df tl_df pols"

definition trend_lines :: "'r lib \<Rightarrow> frame \<Rightarrow> string option \<Rightarrow> string list \<Rightarrow> error + line list" where
  \<comment> \<open>lines 49 to 66\<close>
  "trend_lines L df date_col pols =
     (case has_dates df date_col of
        Inl e \<Rightarrow> Inl e
      | Inr dated \<Rightarrow>
          if dated \<and> 8 \<le> len_df df then
            (let q = len_df df div 4;
                 msgs = trend_msgs L (head_df q df) (tail_df q df) pols
             in if msgs \<noteq> [] then Inr [Text (''Simple trends: '' @ join ''; '' msgs)] else Inr [])
          else Inr [])"

definition NO_POLLUTANTS :: string where
  "NO_POLLUTANTS = ''No standard pollutant columns found. Showing dataframe head:''"

definition desc_lines :: "'r lib \<Rightarrow> frame \<Rightarrow> error + line list" where
  \<comment> \<open>the list \<^verbatim>\<open>desc\<close> at line 71\<close>
  "desc_lines L df0 =
     (let df1 = rename_columns L df0; date_col = detect_date_col df1
      in case parse_and_sort L df1 date_col of
           Inl e \<Rightarrow> Inl e
         | Inr df \<Rightarrow>
      (let pols = pollutants_of df
       in case date_range_lines df date_col of
            Inl e \<Rightarrow> Inl e
          | Inr dl \<Rightarrow>
              if pols \<noteq> [] then
                (case means_line L df pols of
                   Inl e \<Rightarrow> Inl e
                 | Inr ml \<Rightarrow>
                     (case trend_lines L df date_col pols of
                        Inl e \<Rightarrow> Inl e
                      | Inr trl \<Rightarrow> Inr (rows_line df # dl @ [ml] @ trl)))
              else Inr (rows_line df # dl @ [Text NO_POLLUTANTS, ToString (head_df 5 df)])))"

definition render :: "(frame \<Rightarrow> string) \<Rightarrow> line \<Rightarrow> string" where
  "render ts l = (case l of Text s \<Rightarrow> s | ToString f \<Rightarrow> ts f)"

definition analyze_air_quality_csv :: "(frame \<Rightarrow> string) \<Rightarrow> 'r lib \<Rightarrow> frame \<Rightarrow> error + string" where
  "analyze_air_quality_csv ts L df0 =
     (case desc_lines L df0 of
        Inl e \<Rightarrow> Inl e
      | Inr desc \<Rightarrow> Inr (join [CHR 0x0A] (map (render ts) desc)))"

subsection \<open>Loaded frames and what is assumed of the library\<close>

fun is_date_col :: "column \<Rightarrow> bool" where
  "is_date_col (DateCol xs) = True"
| "is_date_col c = False"

definition loaded :: "frame \<Rightarrow> bool" where
  \<comment> \<open>what \<^verbatim>\<open>read_csv\<close> returns: columns of one length, none of datetime dtype\<close>
  "loaded df = list_all (\<lambda>(n, c). col_len c = len_df df \<and> \<not> is_date_col c) df"

definition sorting :: "(datetime list \<Rightarrow> nat list) \<Rightarrow> bool" where
  \<comment> \<open>the sort returns every position once, in an order in which the dates ascend\<close>
  "sorting f = (\<forall>xs. mset (f xs) = mset [0..<length xs] \<and> sorted (map (\<lambda>i. xs ! i) (f xs)))"

definition date_col_single :: "frame \<Rightarrow> bool" where
  \<comment> \<open>no two columns bear the name of the date column\<close>
  "date_col_single df =
     (case detect_date_col df of None \<Rightarrow> True | Some dc \<Rightarrow> length (cols_named df dc) = 1)"

subsection \<open>An instance of the library\<close>

text \<open>
  The record \<open>exact_lib\<close> is the library on names written in ASCII, on text columns of
  dates written \<^verbatim>\<open>YYYY-MM-DD\<close>, with a stable sort and with exact arithmetic. It is
  used only at the concrete frames below. Their names and dates are of that kind, no two
  of their rows have the same date, so that every sort orders them alike, and their
  numbers are small enough for \<^verbatim>\<open>float64\<close> to give the same text.
\<close>

definition is_space :: "char \<Rightarrow> bool" where
  "is_space ch = (ch \<in> set [CHR 0x20, CHR 0x09, CHR 0x0A, CHR 0x0B, CHR 0x0C, CHR 0x0D,
                              CHR 0x1C, CHR 0x1D, CHR 0x1E, CHR 0x1F])"

definition strip :: "string \<Rightarrow> string" where
  "strip s = rev (dropWhile is_space (rev (dropWhile is_space s)))"

definition lower_char :: "char \<Rightarrow> char" where
  "lower_char ch =
     (case map_of (zip ''ABCDEFGHIJKLMNOPQRSTUVWXYZ'' ''abcdefghijklmnopqrstuvwxyz'') ch of
        None \<Rightarrow> ch
      | Some l \<Rightarrow> l)"

definition lower :: "string \<Rightarrow> string" where
  "lower s = map lower_char s"

definition digit_val :: "char \<Rightarrow> nat option" where
  "digit_val ch =
     (let n = of_char ch :: nat in if 48 \<le> n \<and> n \<le> 57 then Some (n - 48) else None)"

fun digits_val :: "nat \<Rightarrow> string \<Rightarrow> nat option" where
  "digits_val acc [] = Some acc"
| "digits_val acc (ch # s) =
     (case digit_val ch of None \<Rightarrow> None | Some d \<Rightarrow> digits_val (10 * acc + d) s)"

definition days_in_month :: "nat \<Rightarrow> nat \<Rightarrow> nat" where
  "days_in_month y m =
     (if m = 2 then (if y mod 4 = 0 \<and> (y mod 100 \<noteq> 0 \<or> y mod 400 = 0) then 29 else 28)
      else if m \<in> set [4, 6, 9, 11] then 30 else 31)"

definition parse_iso_date :: "string \<Rightarrow> datetime option" where
  \<comment> \<open>a date written \<^verbatim>\<open>YYYY-MM-DD\<close>, at midnight\<close>
  "parse_iso_date s =
     (if length s = 10 \<and> s ! 4 = CHR ''-'' \<and> s ! 7 = CHR ''-'' then
        (case (digits_val 0 (take 4 s), digits_val 0 (take 2 (drop 5 s)), digits_val 0 (drop 8 s)) of
           (Some y, Some m, Some d) \<Rightarrow>
             if 1 \<le> m \<and> m \<le> 12 \<and> 1 \<le> d \<and> d \<le> days_in_month y m then Some ((y, m, d), 0)
             else None
         | _ \<Rightarrow> None)
      else None)"

definition iso_dates :: "column \<Rightarrow> nat \<Rightarrow> datetime option" where
  \<comment> \<open>on a column of text: a date written \<^verbatim>\<open>YYYY-MM-DD\<close> is read, anything else is
      \<^verbatim>\<open>NaT\<close>\<close>
  "iso_dates c i =
     (case c of
        ObjCol xs \<Rightarrow> (case xs ! i of Some (Str s) \<Rightarrow> parse_iso_date s | _ \<Rightarrow> None)
      | _ \<Rightarrow> None)"

definition stable_argsort :: "datetime list \<Rightarrow> nat list" where
  "stable_argsort xs = sort_key (\<lambda>i. xs ! i) [0..<length xs]"

definition mean_list :: "rat list \<Rightarrow> rat option" where
  \<comment> \<open>the sum over the count, \<^verbatim>\<open>NaN\<close> when there is no value\<close>
  "mean_list vs = (if vs = [] then None else Some (sum_list vs / of_nat (length vs)))"

definition bool_num :: "bool \<Rightarrow> rat" where
  "bool_num b = (if b then 1 else 0)"

fun is_str :: "obj \<Rightarrow> bool" where
  "is_str (Str s) = True"
| "is_str x = False"

fun obj_num :: "obj \<Rightarrow> rat" where
  "obj_num (Bool b) = bool_num b"
| "obj_num (Number x) = x"
| "obj_num (Str s) = 0"

fun exact_frame_mean :: "column \<Rightarrow> rat option" where
  "exact_frame_mean (NumCol xs) = mean_list (present xs)"
| "exact_frame_mean (BoolCol bs) = mean_list (map bool_num bs)"
| "exact_frame_mean c = None"

fun exact_series_mean :: "column \<Rightarrow> error + rat option" where
  \<comment> \<open>missing values are skipped; text cannot be averaged (pandas 2)\<close>
  "exact_series_mean (NumCol xs) = Inr (mean_list (present xs))"
| "exact_series_mean (BoolCol bs) = Inr (mean_list (map bool_num bs))"
| "exact_series_mean (ObjCol xs) =
     (if list_ex is_str (present xs) then Inl TypeError
      else Inr (mean_list (map obj_num (present xs))))"
| "exact_series_mean (DateCol xs) = Inl TypeError"

definition exact_notna :: "rat option \<Rightarrow> bool" where
  "exact_notna r = (case r of None \<Rightarrow> False | Some x \<Rightarrow> True)"

definition exact_sub :: "rat option \<Rightarrow> rat option \<Rightarrow> rat option" where
  "exact_sub a b = (case (a, b) of (Some x, Some y) \<Rightarrow> Some (x - y) | _ \<Rightarrow> None)"

definition exact_abs_lt_eps :: "rat option \<Rightarrow> bool" where
  "exact_abs_lt_eps d = (case d of None \<Rightarrow> False | Some x \<Rightarrow> \<bar>x\<bar> < 1 / 1000000)"

definition exact_lt_zero :: "rat option \<Rightarrow> bool" where
  "exact_lt_zero d = (case d of None \<Rightarrow> False | Some x \<Rightarrow> x < 0)"

definition round_half_even :: "rat \<Rightarrow> int" where
  "round_half_even x =
     (let f = \<lfloor>x\<rfloor>; d = x - of_int f
      in if d < 1 / 2 then f else if 1 / 2 < d then f + 1 else if even f then f else f + 1)"

definition two_decimals :: "rat \<Rightarrow> string" where
  \<comment> \<open>ties go to the even digit, and a negative number keeps its sign when it rounds to
      zero\<close>
  "two_decimals x =
     (let n = nat (round_half_even (\<bar>x\<bar> * 100))
      in (if x < 0 then ''-'' else '''') @ show_nat (n div 100) @ ''.'' @
         zfill 2 (show_nat (n mod 100)))"

definition fmt_float :: "rat option \<Rightarrow> string" where
  "fmt_float v = (case v of None \<Rightarrow> ''nan'' | Some x \<Rightarrow> two_decimals x)"

definition exact_lib :: "rat option lib" where
  "exact_lib =
     \<lparr> str_strip = strip, str_lower = lower, to_dt = iso_dates, argsort = stable_argsort,
       frame_mean = exact_frame_mean, series_mean = exact_series_mean,
       notna = exact_notna, sub = exact_sub, abs_lt_eps = exact_abs_lt_eps,
       lt_zero = exact_lt_zero, fmt_2f = fmt_float \<rparr>"

subsection \<open>Notions of the specification\<close>

text \<open>
  The definitions of this subsection are not translations of the code. They write down,
  in the words of the specification, what the report is compared with.
\<close>

fun missing_last_sorted :: "datetime option list \<Rightarrow> bool" where
  \<comment> \<open>ascending, the missing values last: checked on neighbours\<close>
  "missing_last_sorted [] = True"
| "missing_last_sorted [x] = True"
| "missing_last_sorted (x # y # zs) =
     ((case (x, y) of (Some a, Some b) \<Rightarrow> a \<le> b | (None, Some b) \<Rightarrow> False | _ \<Rightarrow> True) \<and>
      missing_last_sorted (y # zs))"

definition loaded_dates :: "'r lib \<Rightarrow> frame \<Rightarrow> datetime option list" where
  \<comment> \<open>the parsed dates of a frame whose names are normalised, in load order; there is
      none when no date column is recognised\<close>
  "loaded_dates L df =
     (case detect_date_col df of
        None \<Rightarrow> []
      | Some dc \<Rightarrow> (case cols_named df dc of [c] \<Rightarrow> parse_column L c | _ \<Rightarrow> []))"

definition spec_means_entries :: "'r lib \<Rightarrow> frame \<Rightarrow> string list" where
  \<comment> \<open>the entries of the \<^verbatim>\<open>Means:\<close> line, in vocabulary order: one for each
      vocabulary name borne by a column of numeric or boolean dtype, with the mean of
      the last such column\<close>
  "spec_means_entries L df =
     concat (map (\<lambda>name.
       case filter numeric_dtype (cols_named df name) of
         [] \<Rightarrow> []
       | c # cs \<Rightarrow> [name @ ''='' @ fmt_2f L (frame_mean L (last (c # cs)))])
       VOCABULARY)"

definition spec_trend_label :: "'r lib \<Rightarrow> frame \<Rightarrow> frame \<Rightarrow> string \<Rightarrow> string list" where
  \<comment> \<open>the label of one pollutant, from the head and tail slices: none unless one column
      bears the name, both slice means are defined, and \<^verbatim>\<open>abs(delta) < 1e-6\<close> is
      false\<close>
  "spec_trend_label L hd_df tl_df pol =
     (case (cols_named hd_df pol, cols_named tl_df pol) of
        ([hc], [tc]) \<Rightarrow>
          (case (series_mean L hc, series_mean L tc) of
             (Inr h, Inr t) \<Rightarrow>
               if notna L h \<and> notna L t \<and> \<not> abs_lt_eps L (sub L t h) then
                 [pol @ '': '' @
                  (if lt_zero L (sub L t h) then ''decreasing'' else ''increasing'') @
                  '' (~'' @ fmt_2f L (sub L t h) @ '')'']
               else []
           | _ \<Rightarrow> [])
      | _ \<Rightarrow> [])"

definition spec_date_lines :: "datetime option list \<Rightarrow> line list" where
  \<comment> \<open>step 6: the date-range line, from the parsed dates\<close>
  "spec_date_lines lds =
     (if present lds \<noteq> [] then
        [Text (''Date range: '' @ fmt_bound (series_min lds) @ '' '' @ ARROW @ '' '' @
               fmt_bound (series_max lds))]
      else [])"

definition spec_trend_labels :: "'r lib \<Rightarrow> frame \<Rightarrow> string list \<Rightarrow> string list" where
  \<comment> \<open>step 8b: the labels, from the first and the last quarter of the sorted rows\<close>
  "spec_trend_labels L sf pols =
     concat (map (spec_trend_label L (head_df (len_df sf div 4) sf) (tail_df (len_df sf div 4) sf))
               pols)"

definition spec_trend_lines ::
  "'r lib \<Rightarrow> datetime option list \<Rightarrow> frame \<Rightarrow> string list \<Rightarrow> line list" where
  "spec_trend_lines L lds sf pols =
     (if present lds \<noteq> [] \<and> 8 \<le> len_df sf \<and> spec_trend_labels L sf pols \<noteq> [] then
        [Text (''Simple trends: '' @ join ''; '' (spec_trend_labels L sf pols))]
      else [])"

subsection \<open>Concrete frames\<close>

definition sample_frame :: frame where
  \<comment> \<open>what \<^verbatim>\<open>read_csv\<close> returns for the sample written at lines 236 to 240: a text
      column and three \<^verbatim>\<open>int64\<close> columns\<close>
  "sample_frame =
     [(''date'', ObjCol [Some (Str ''2025-01-01''), Some (Str ''2025-03-01''),
                         Some (Str ''2025-05-01''), Some (Str ''2025-07-01'')]),
      (''pm25'', NumCol [Some 65, Some 58, Some 50, Some 44]),
      (''pm10'', NumCol [Some 118, Some 100, Some 92, Some 85]),
      (''no2'', NumCol [Some 40, Some 38, Some 35, Some 32])]"

definition shuffled_frame :: frame where
  \<comment> \<open>three rows out of date order, one of them without a date\<close>
  "shuffled_frame =
     [(''City'', ObjCol [Some (Str ''Lahore''), Some (Str ''Karachi''), Some (Str ''Multan'')]),
      ('' Date '', ObjCol [Some (Str ''2025-03-01''), None, Some (Str ''2025-01-01'')]),
      (''PM25'', NumCol [Some 58, Some 50, Some 65])]"

definition trend_frame :: frame where
  \<comment> \<open>eight rows out of date order, one date that does not parse and one that is missing;
      a numeric, a text, a boolean and an empty pollutant column, not in vocabulary order\<close>
  "trend_frame =
     [('' Date '', ObjCol [Some (Str ''2025-08-01''), Some (Str ''2025-03-01''), Some (Str ''bad''),
                           Some (Str ''2025-07-01''), Some (Str ''2025-01-01''),
                           Some (Str ''2025-02-01''), None, Some (Str ''2025-09-01'')]),
      (''PM25'', NumCol [Some 65, Some 58, Some 50, Some 44, Some 1, None, Some 3, Some (7 / 2)]),
      (''pm10'', ObjCol [Some (Str ''a''), Some (Str ''100''), None, None, Some (Str ''high''),
                         None, None, None]),
      (''co'', BoolCol [True, False, True, True, False, False, True, True]),
      (''no2'', NumCol [None, None, None, None, None, None, None, None])]"

definition trend_sorted :: frame where
  \<comment> \<open>\<open>trend_frame\<close> after lines 26 to 35\<close>
  "trend_sorted =
     [(''date'', DateCol [Some ((2025, 1, 1), 0), Some ((2025, 2, 1), 0), Some ((2025, 3, 1), 0),
                          Some ((2025, 7, 1), 0), Some ((2025, 8, 1), 0), Some ((2025, 9, 1), 0),
                          None, None]),
      (''pm25'', NumCol [Some 1, None, Some 58, Some 44, Some 65, Some (7 / 2), Some 50, Some 3]),
      (''pm10'', ObjCol [Some (Str ''high''), None, Some (Str ''100''), None, Some (Str ''a''),
                         None, None, None]),
      (''co'', BoolCol [False, False, False, True, True, True, True, True]),
      (''no2'', NumCol [None, None, None, None, None, None, None, None])]"






definition text_frame :: frame where
  \<comment> \<open>eight rows in date order; the pollutant columns are of object dtype, one of text
      and one of booleans with empty cells\<close>
  "text_frame =
     [(''date'', ObjCol [Some (Str ''2025-01-01''), Some (Str ''2025-02-01''),
                         Some (Str ''2025-03-01''), Some (Str ''2025-04-01''),
                         Some (Str ''2025-05-01''), Some (Str ''2025-06-01''),
                         Some (Str ''2025-07-01''), Some (Str ''2025-08-01'')]),
      (''pm25'', ObjCol [Some (Str ''high''), Some (Str ''low''), Some (Str ''low''),
                         Some (Str ''high''), Some (Str ''low''), Some (Str ''low''),
                         Some (Str ''high''), Some (Str ''low'')]),
      (''co'', ObjCol [Some (Bool True), Some (Bool True), None, Some (Bool False),
                       Some (Bool True), None, Some (Bool False), Some (Bool False)])]"

definition text_sorted :: frame where
  \<comment> \<open>\<open>text_frame\<close> after lines 26 to 35\<close>
  "text_sorted =
     [(''date'', DateCol [Some ((2025, 1, 1), 0), Some ((2025, 2, 1), 0), Some ((2025, 3, 1), 0),
                          Some ((2025, 4, 1), 0), Some ((2025, 5, 1), 0), Some ((2025, 6, 1), 0),
                          Some ((2025, 7, 1), 0), Some ((2025, 8, 1), 0)]),
      (''pm25'', ObjCol [Some (Str ''high''), Some (Str ''low''), Some (Str ''low''),
                         Some (Str ''high''), Some (Str ''low''), Some (Str ''low''),
                         Some (Str ''high''), Some (Str ''low'')]),
      (''co'', ObjCol [Some (Bool True), Some (Bool True), None, Some (Bool False),
                       Some (Bool True), None, Some (Bool False), Some (Bool False)])]"

definition empty_column_frame :: frame where
  \<comment> \<open>for the text \<^verbatim>\<open>site,pm25\<close>, \<^verbatim>\<open>A,\<close>, \<^verbatim>\<open>B,\<close>: the pollutant column has no value
      and is \<^verbatim>\<open>float64\<close>\<close>
  "empty_column_frame =
     [(''site'', ObjCol [Some (Str ''A''), Some (Str ''B'')]),
      (''pm25'', NumCol [None, None])]"

section \<open>Properties\<close>

subsection \<open>Frames: lookup, assignment and the sort\<close>

lemma columns_map_cols: "columns (map (\<lambda>(n, c). (n, f c)) df) = columns df"
  by (induction df) (auto simp: columns_def)

lemma columns_setitem: "columns (setitem df name c) = columns df"
  by (induction df) (auto simp: columns_def setitem_def)

lemma cols_named_map_cols:
  "cols_named (map (\<lambda>(n, c). (n, f c)) df) name = map f (cols_named df name)"
  by (induction df) (auto simp: cols_named_def)

lemma cols_named_setitem_same:
  "cols_named (setitem df name c) name = replicate (length (cols_named df name)) c"
  by (induction df) (auto simp: cols_named_def setitem_def)

lemma cols_named_setitem_other:
  "m \<noteq> name \<Longrightarrow> cols_named (setitem df name c) m = cols_named df m"
  by (induction df) (auto simp: cols_named_def setitem_def)

lemma cols_named_empty_iff: "cols_named df name = [] \<longleftrightarrow> name \<notin> set (columns df)"
  by (induction df) (auto simp: cols_named_def columns_def)

lemma getitem_single: "cols_named df name = [c] \<Longrightarrow> getitem df name = Inr (Series c)"
  by (simp add: getitem_def)

lemma getitem_several:
  "2 \<le> length (cols_named df name) \<Longrightarrow> getitem df name = Inr (Frame (cols_named df name))"
  by (cases "cols_named df name" rule: list.exhaust; cases "tl (cols_named df name)")
     (auto simp: getitem_def)

lemma detect_date_col_in:
  "detect_date_col df = Some dc \<Longrightarrow> dc \<in> set (columns df) \<and> dc \<in> set DATE_CANDIDATES"
  unfolding detect_date_col_def by (auto simp: find_Some_iff)

lemma parse_and_sort_Some:
  assumes "cols_named df dc = [c]"
  shows "parse_and_sort L df (Some dc) =
           Inr (map (\<lambda>(n, col). (n, take_rows (nargsort L (parse_column L c)) col))
                  (setitem df dc (DateCol (parse_column L c))))"
proof -
  have "cols_named (setitem df dc (DateCol (parse_column L c))) dc = [DateCol (parse_column L c)]"
    using assms by (simp add: cols_named_setitem_same)
  then have "getitem (setitem df dc (DateCol (parse_column L c))) dc =
               Inr (Series (DateCol (parse_column L c)))"
    by (rule getitem_single)
  then show ?thesis
    using getitem_single [OF assms]
    by (simp add: parse_and_sort_def sort_values_def to_datetime_def)
qed

lemma parse_and_sort_several:
  assumes "2 \<le> length (cols_named df dc)"
  shows "parse_and_sort L df (Some dc) = Inl ValueError"
  using getitem_several [OF assms] by (simp add: parse_and_sort_def to_datetime_def)

lemma parse_and_sort_returns:
  "(\<exists>sf. parse_and_sort L df (detect_date_col df) = Inr sf) \<longleftrightarrow> date_col_single df"
proof (cases "detect_date_col df")
  case None then show ?thesis by (simp add: parse_and_sort_def date_col_single_def)
next
  case (Some dc)
  then have "cols_named df dc \<noteq> []" using detect_date_col_in cols_named_empty_iff by blast
  then consider c where "cols_named df dc = [c]" | "2 \<le> length (cols_named df dc)"
    by (cases "cols_named df dc"; cases "tl (cols_named df dc)") auto
  then show ?thesis
  proof cases
    case 1 then show ?thesis
      using Some parse_and_sort_Some [OF 1, of L] by (simp add: date_col_single_def)
  next
    case 2 then show ?thesis
      using Some parse_and_sort_several [OF 2, of L] by (simp add: date_col_single_def)
  qed
qed

lemma date_col_single_cases:
  assumes "date_col_single df"
  obtains "detect_date_col df = None"
  | dc c where "detect_date_col df = Some dc" and "cols_named df dc = [c]"
proof (cases "detect_date_col df")
  case None then show ?thesis using that by blast
next
  case (Some dc)
  then have "length (cols_named df dc) = 1" using assms by (simp add: date_col_single_def)
  then obtain c where "cols_named df dc = [c]"
    by (cases "cols_named df dc") auto
  then show ?thesis using Some that by blast
qed

lemma mset_map_nth_perm:
  assumes "mset p = mset [0..<length xs]"
  shows "mset (map (\<lambda>i. xs ! i) p) = mset xs"
proof -
  have "mset (map (\<lambda>i. xs ! i) p) = image_mset (\<lambda>i. xs ! i) (mset p)" by simp
  also have "\<dots> = image_mset (\<lambda>i. xs ! i) (mset [0..<length xs])" using assms by simp
  also have "\<dots> = mset (map (\<lambda>i. xs ! i) [0..<length xs])" by simp
  also have "\<dots> = mset xs" by (simp add: map_nth)
  finally show ?thesis .
qed

lemma mset_nargsort:
  assumes "sorting (argsort L)"
  shows "mset (nargsort L ds) = mset [0..<length ds]"
proof -
  let ?nn = "filter (\<lambda>i. ds ! i \<noteq> None) [0..<length ds]"
  let ?na = "filter (\<lambda>i. ds ! i = None) [0..<length ds]"
  let ?keys = "map (\<lambda>i. the (ds ! i)) ?nn"
  have part: "mset (filter (\<lambda>i. ds ! i \<noteq> None) xs) + mset (filter (\<lambda>i. ds ! i = None) xs) = mset xs"
    for xs :: "nat list"
    by (induction xs) auto
  have "mset (argsort L ?keys) = mset [0..<length ?nn]"
    using assms by (simp add: sorting_def)
  then have "mset (map (\<lambda>j. ?nn ! j) (argsort L ?keys)) = mset ?nn"
    by (rule mset_map_nth_perm)
  then show ?thesis
    unfolding nargsort_def Let_def using part [of "[0..<length ds]"]
    by (simp only: mset_append)
qed

lemma length_nargsort: "sorting (argsort L) \<Longrightarrow> length (nargsort L ds) = length ds"
  using mset_nargsort [of L ds] by (metis length_upt mset_eq_length minus_nat.diff_0)

lemma col_len_take_rows: "col_len (take_rows p c) = length p"
  by (cases c) auto

lemma sorting_stable: "sorting stable_argsort"
  unfolding sorting_def stable_argsort_def by (simp add: sorted_sort_key)

subsection \<open>When the report is returned, and its shape\<close>

lemma getitems_total:
  "set ns \<subseteq> set (columns df) \<Longrightarrow>
   getitems df ns = Inr (concat (map (\<lambda>n. map (Pair n) (cols_named df n)) ns))"
proof (induction ns)
  case Nil then show ?case by simp
next
  case (Cons n ns)
  then have "cols_named df n \<noteq> []" by (simp add: cols_named_empty_iff)
  with Cons show ?case by (cases "cols_named df n") auto
qed

lemma pollutants_subset: "set (pollutants_of df) \<subseteq> set (columns df)"
  by (auto simp: pollutants_of_def)

lemma means_line_total:
  "means_line L df (pollutants_of df) =
     Inr (Text (''Means: '' @ join ''; '' (map (means_entry L) (to_dict (frame_means L
       (concat (map (\<lambda>n. map (Pair n) (cols_named df n)) (pollutants_of df))))))))"
  by (simp add: means_line_def getitems_total [OF pollutants_subset])

lemma has_dates_None: "has_dates df None = Inr False"
  by (simp add: has_dates_def)

lemma date_range_lines_None: "date_range_lines df None = Inr []"
  by (simp add: date_range_lines_def has_dates_def)

lemma date_range_lines_Some:
  "cols_named df dc = [DateCol ds] \<Longrightarrow>
   date_range_lines df (Some dc) =
     Inr (if present ds \<noteq> [] then
            [Text (''Date range: '' @ fmt_bound (series_min ds) @ '' '' @ ARROW @ '' '' @
                   fmt_bound (series_max ds))]
          else [])"
  by (simp add: date_range_lines_def has_dates_def date_values_def getitem_def)

lemma trend_lines_None: "trend_lines L df None pols = Inr []"
  by (simp add: trend_lines_def has_dates_def)

lemma trend_lines_Some:
  "cols_named df dc = [DateCol ds] \<Longrightarrow>
   trend_lines L df (Some dc) pols =
     Inr (if present ds \<noteq> [] \<and> 8 \<le> len_df df \<and>
             trend_msgs L (head_df (len_df df div 4) df) (tail_df (len_df df div 4) df) pols \<noteq> []
          then [Text (''Simple trends: '' @ join ''; ''
                  (trend_msgs L (head_df (len_df df div 4) df) (tail_df (len_df df div 4) df) pols))]
          else [])"
  by (simp add: trend_lines_def has_dates_def Let_def getitem_def)

lemma sorted_frame_date_col:
  assumes "cols_named df dc = [c]"
    and "parse_and_sort L df (Some dc) = Inr sf"
  shows "cols_named sf dc =
           [DateCol (map (\<lambda>i. parse_column L c ! i) (nargsort L (parse_column L c)))]"
proof -
  have sf: "sf = map (\<lambda>(n, col). (n, take_rows (nargsort L (parse_column L c)) col))
                  (setitem df dc (DateCol (parse_column L c)))"
    using assms parse_and_sort_Some [OF assms(1), of L] by simp
  show ?thesis
    unfolding sf cols_named_map_cols
    by (simp add: cols_named_setitem_same assms(1))
qed

lemma sorted_frame_other_col:
  assumes "cols_named df dc = [c]"
    and "parse_and_sort L df (Some dc) = Inr sf"
    and "n \<noteq> dc"
  shows "cols_named sf n = map (take_rows (nargsort L (parse_column L c))) (cols_named df n)"
proof -
  have sf: "sf = map (\<lambda>(n, col). (n, take_rows (nargsort L (parse_column L c)) col))
                  (setitem df dc (DateCol (parse_column L c)))"
    using assms parse_and_sort_Some [OF assms(1), of L] by simp
  show ?thesis
    unfolding sf cols_named_map_cols
    by (simp add: cols_named_setitem_other [OF assms(3)])
qed

lemma sorted_frame_columns:
  assumes "parse_and_sort L df (detect_date_col df) = Inr sf"
  shows "columns sf = columns df"
proof -
  have "date_col_single df" using assms parse_and_sort_returns by blast
  then show ?thesis
  proof (cases rule: date_col_single_cases)
    case 1 with assms show ?thesis by (simp add: parse_and_sort_def)
  next
    case (2 dc c)
    show ?thesis
      using assms 2(1) parse_and_sort_Some [OF 2(2), of L]
      by (auto simp: columns_map_cols columns_setitem)
  qed
qed

lemma length_parse_column: "length (parse_column L c) = col_len c"
  by (simp add: parse_column_def)

lemma sorted_frame_len:
  assumes "sorting (argsort L)"
    and "cols_named df dc = [c]"
    and "parse_and_sort L df (Some dc) = Inr sf"
  shows "len_df sf = col_len c"
proof -
  have sf: "sf = map (\<lambda>(n, col). (n, take_rows (nargsort L (parse_column L c)) col))
                  (setitem df dc (DateCol (parse_column L c)))"
    using assms parse_and_sort_Some [OF assms(2), of L] by simp
  have "df \<noteq> []" using assms(2) by (auto simp: cols_named_def)
  then obtain n0 c0 rest where df: "df = (n0, c0) # rest" by (cases df) auto
  show ?thesis
    unfolding sf df
    by (simp add: len_df_def setitem_def col_len_take_rows length_nargsort [OF assms(1)]
        length_parse_column)
qed

lemma desc_lines_eq:
  assumes "parse_and_sort L (rename_columns L df) (detect_date_col (rename_columns L df)) = Inr sf"
    and "date_range_lines sf (detect_date_col (rename_columns L df)) = Inr dl"
    and "means_line L sf (pollutants_of sf) = Inr ml"
    and "trend_lines L sf (detect_date_col (rename_columns L df)) (pollutants_of sf) = Inr trl"
  shows "desc_lines L df =
           Inr (rows_line sf # dl @
                (if pollutants_of sf \<noteq> [] then [ml] @ trl
                 else [Text NO_POLLUTANTS, ToString (head_df 5 sf)]))"
  using assms by (simp add: desc_lines_def Let_def)

lemma desc_lines_raises:
  assumes "\<not> date_col_single (rename_columns L df)"
  shows "desc_lines L df = Inl ValueError"
proof -
  obtain dc where dc: "detect_date_col (rename_columns L df) = Some dc"
    using assms by (cases "detect_date_col (rename_columns L df)") (auto simp: date_col_single_def)
  then have "cols_named (rename_columns L df) dc \<noteq> []"
    using detect_date_col_in cols_named_empty_iff by blast
  then have "2 \<le> length (cols_named (rename_columns L df) dc)"
    using assms dc
    by (cases "cols_named (rename_columns L df) dc"; cases "tl (cols_named (rename_columns L df) dc)")
       (auto simp: date_col_single_def)
  then show ?thesis
    using dc parse_and_sort_several [of "rename_columns L df" dc L]
    by (simp add: desc_lines_def Let_def)
qed

lemma len_df_rename: "len_df (rename_columns L df) = len_df df"
  by (cases df) (auto simp: len_df_def rename_columns_def)

lemma loaded_col_len:
  assumes "loaded df" and "c \<in> set (cols_named (rename_columns L df) n)"
  shows "col_len c = len_df df" and "\<not> is_date_col c"
proof -
  from assms(2) have "(n, c) \<in> set (rename_columns L df)"
    by (auto simp: cols_named_def)
  then obtain n0 where "(n0, c) \<in> set df" by (auto simp: rename_columns_def)
  with assms(1) show "col_len c = len_df df" and "\<not> is_date_col c"
    by (auto simp: loaded_def list_all_iff)
qed

subsection \<open>Rows in another order\<close>

lemma present_filter: "present xs = map the (filter (\<lambda>x. x \<noteq> None) xs)"
  by (induction xs) (auto simp: present_def split: option.splits)

lemma set_present: "set (present xs) = {v. Some v \<in> set xs}"
  by (induction xs) (auto simp: present_def split: option.splits)

lemma mset_present: "mset (present xs) = image_mset the (filter_mset (\<lambda>x. x \<noteq> None) (mset xs))"
  by (simp add: present_filter)

lemma mset_sorted_rows:
  "sorting (argsort L) \<Longrightarrow> length xs = length ds \<Longrightarrow>
   mset (map (\<lambda>i. xs ! i) (nargsort L ds)) = mset xs"
  using mset_map_nth_perm [of "nargsort L ds" xs] mset_nargsort [of L ds] by simp

lemma mset_present_cong: "mset xs = mset ys \<Longrightarrow> mset (present xs) = mset (present ys)"
  by (simp add: mset_present)

lemma present_cong_empty: "mset xs = mset ys \<Longrightarrow> present xs = [] \<longleftrightarrow> present ys = []"
  using mset_present_cong [of xs ys] by (metis mset_zero_iff)

lemma series_min_Min:
  "series_min ds = (if present ds = [] then None else Some (Min (set (present ds))))"
proof (cases "present ds")
  case Nil then show ?thesis by (simp add: series_min_def)
next
  case (Cons d rest)
  have "fold min rest d = Min (set (d # rest))" by (rule Min.set_eq_fold [symmetric])
  with Cons show ?thesis by (simp add: series_min_def)
qed

lemma series_max_Max:
  "series_max ds = (if present ds = [] then None else Some (Max (set (present ds))))"
proof (cases "present ds")
  case Nil then show ?thesis by (simp add: series_max_def)
next
  case (Cons d rest)
  have "fold max rest d = Max (set (d # rest))" by (rule Max.set_eq_fold [symmetric])
  with Cons show ?thesis by (simp add: series_max_def)
qed

lemma series_min_cong: "mset xs = mset ys \<Longrightarrow> series_min xs = series_min ys"
  using mset_present_cong [of xs ys]
  by (auto simp: series_min_Min dest: mset_eq_setD)

lemma series_max_cong: "mset xs = mset ys \<Longrightarrow> series_max xs = series_max ys"
  using mset_present_cong [of xs ys]
  by (auto simp: series_max_Max dest: mset_eq_setD)

lemma missing_last_sorted_replicate: "missing_last_sorted (replicate k None)"
proof (induction k)
  case 0 then show ?case by simp
next
  case (Suc k) then show ?case by (cases k) auto
qed

lemma missing_last_sorted_append:
  "sorted ss \<Longrightarrow> missing_last_sorted (map Some ss @ replicate k None)"
proof (induction ss)
  case Nil then show ?case by (simp add: missing_last_sorted_replicate)
next
  case (Cons a ss)
  show ?case
  proof (cases ss)
    case Nil
    then show ?thesis using missing_last_sorted_replicate [of k] by (cases k) auto
  next
    case (Cons b ss')
    then show ?thesis using Cons.IH Cons.prems by auto
  qed
qed

lemma sorted_rows_dates:
  assumes "sorting (argsort L)"
  shows "missing_last_sorted (map (\<lambda>i. ds ! i) (nargsort L ds))"
proof -
  let ?nn = "filter (\<lambda>i. ds ! i \<noteq> None) [0..<length ds]"
  let ?na = "filter (\<lambda>i. ds ! i = None) [0..<length ds]"
  let ?keys = "map (\<lambda>i. the (ds ! i)) ?nn"
  let ?p = "argsort L ?keys"
  have perm: "mset ?p = mset [0..<length ?nn]" and srt: "sorted (map (\<lambda>j. ?keys ! j) ?p)"
    using assms by (simp_all add: sorting_def)
  have bound: "j < length ?nn" if "j \<in> set ?p" for j
  proof -
    have "j \<in> set [0..<length ?nn]" using that perm by (metis mset_eq_setD)
    then show ?thesis by simp
  qed
  have "ds ! (?nn ! j) = Some (?keys ! j)" if "j \<in> set ?p" for j
  proof -
    have j: "j < length ?nn" by (rule bound [OF that])
    then have "?nn ! j \<in> set ?nn" by (rule nth_mem)
    then have "ds ! (?nn ! j) \<noteq> None" by simp
    then show ?thesis using j by (simp del: upt.simps)
  qed
  then have a: "map (\<lambda>i. ds ! i) (map (\<lambda>j. ?nn ! j) ?p) = map Some (map (\<lambda>j. ?keys ! j) ?p)"
    by (simp add: comp_def cong: map_cong)
  have c: "map (\<lambda>i. ds ! i) ?na = replicate (length ?na) None"
    by (simp add: map_replicate_const [symmetric] cong: map_cong)
  show ?thesis
    unfolding nargsort_def Let_def map_append a c
    by (rule missing_last_sorted_append [OF srt])
qed

subsection \<open>The lines of the report\<close>

lemma sorted_frame_dates:
  assumes srt: "sorting (argsort L)"
    and sf: "parse_and_sort L df (detect_date_col df) = Inr sf"
    and dc: "detect_date_col df = Some dc"
  shows "\<exists>sds. cols_named sf dc = [DateCol sds] \<and> mset sds = mset (loaded_dates L df) \<and>
               missing_last_sorted sds \<and> length sds = len_df sf"
proof -
  have "date_col_single df" using sf parse_and_sort_returns by blast
  then obtain c where c: "cols_named df dc = [c]"
    using dc by (cases rule: date_col_single_cases) auto
  have sf': "parse_and_sort L df (Some dc) = Inr sf" using sf dc by simp
  let ?ds = "parse_column L c"
  have lds: "loaded_dates L df = ?ds" using dc c by (simp add: loaded_dates_def)
  have "cols_named sf dc = [DateCol (map (\<lambda>i. ?ds ! i) (nargsort L ?ds))]"
    by (rule sorted_frame_date_col [OF c sf'])
  moreover have "mset (map (\<lambda>i. ?ds ! i) (nargsort L ?ds)) = mset ?ds"
    by (rule mset_sorted_rows [OF srt]) simp
  moreover have "missing_last_sorted (map (\<lambda>i. ?ds ! i) (nargsort L ?ds))"
    by (rule sorted_rows_dates [OF srt])
  moreover have "length (map (\<lambda>i. ?ds ! i) (nargsort L ?ds)) = len_df sf"
    using sorted_frame_len [OF srt c sf']
    by (simp add: length_nargsort [OF srt] length_parse_column)
  ultimately show ?thesis using lds by auto
qed

lemma loaded_dates_None: "detect_date_col df = None \<Longrightarrow> loaded_dates L df = []"
  by (simp add: loaded_dates_def)

lemma report_shape:
  assumes srt: "sorting (argsort L)"
    and single: "date_col_single (rename_columns L df)"
  shows
  "\<exists>sf. parse_and_sort L (rename_columns L df) (detect_date_col (rename_columns L df)) = Inr sf \<and>
     columns sf = columns (rename_columns L df) \<and>
     desc_lines L df =
       Inr (rows_line sf #
            (if present (loaded_dates L (rename_columns L df)) \<noteq> [] then
               [Text (''Date range: '' @
                      fmt_bound (series_min (loaded_dates L (rename_columns L df))) @
                      '' '' @ ARROW @ '' '' @
                      fmt_bound (series_max (loaded_dates L (rename_columns L df))))]
             else []) @
            (if pollutants_of (rename_columns L df) \<noteq> [] then
               Text (''Means: '' @ join ''; '' (map (means_entry L) (to_dict (frame_means L
                  (concat (map (\<lambda>n. map (Pair n) (cols_named sf n))
                     (pollutants_of (rename_columns L df)))))))) #
               (if present (loaded_dates L (rename_columns L df)) \<noteq> [] \<and> 8 \<le> len_df sf \<and>
                   trend_msgs L (head_df (len_df sf div 4) sf) (tail_df (len_df sf div 4) sf)
                     (pollutants_of (rename_columns L df)) \<noteq> []
                then [Text (''Simple trends: '' @ join ''; ''
                        (trend_msgs L (head_df (len_df sf div 4) sf) (tail_df (len_df sf div 4) sf)
                           (pollutants_of (rename_columns L df))))]
                else [])
             else [Text NO_POLLUTANTS, ToString (head_df 5 sf)]))"
proof -
  let ?df1 = "rename_columns L df"
  obtain sf where sf: "parse_and_sort L ?df1 (detect_date_col ?df1) = Inr sf"
    using single parse_and_sort_returns by blast
  have cols: "columns sf = columns ?df1" by (rule sorted_frame_columns [OF sf])
  then have pols: "pollutants_of sf = pollutants_of ?df1" by (simp add: pollutants_of_def)
  show ?thesis
  proof (cases "detect_date_col ?df1")
    case None
    have "loaded_dates L ?df1 = []" using None by (simp add: loaded_dates_def)
    then show ?thesis
      using sf cols pols None
        desc_lines_eq [OF sf _ means_line_total, of "[]" "[]"]
      by (simp add: date_range_lines_None trend_lines_None present_def)
  next
    case (Some dc)
    obtain sds where g: "cols_named sf dc = [DateCol sds]"
      and m: "mset sds = mset (loaded_dates L ?df1)"
      using sorted_frame_dates [OF srt sf Some] by blast
    have e: "present sds = [] \<longleftrightarrow> present (loaded_dates L ?df1) = []"
      by (rule present_cong_empty [OF m])
    have mn: "series_min sds = series_min (loaded_dates L ?df1)"
      by (rule series_min_cong [OF m])
    have mx: "series_max sds = series_max (loaded_dates L ?df1)"
      by (rule series_max_cong [OF m])
    show ?thesis
      using sf cols
        desc_lines_eq [OF sf _ means_line_total, unfolded Some,
          OF date_range_lines_Some [OF g] trend_lines_Some [OF g]]
      by (simp add: pols e mn mx)
  qed
qed

lemma concat_map_filter_if:
  "concat (map g (filter P xs)) = concat (map (\<lambda>x. if P x then g x else []) xs)"
  by (induction xs) auto

lemma frame_means_grouped:
  "frame_means L (concat (map (\<lambda>n. map (Pair n) (cols_named df n)) ns)) =
     concat (map (\<lambda>n. map (Pair n) (map (frame_mean L) (filter numeric_dtype (cols_named df n)))) ns)"
proof (induction ns)
  case Nil then show ?case by (simp add: frame_means_def)
next
  case (Cons n ns)
  have "map (\<lambda>(n, c). (n, frame_mean L c)) (filter (\<lambda>(n, c). numeric_dtype c) (map (Pair n) cs)) =
        map (Pair n) (map (frame_mean L) (filter numeric_dtype cs))" for cs
    by (induction cs) auto
  with Cons show ?case by (simp add: frame_means_def)
qed

lemma to_dict_grouped:
  "distinct ns \<Longrightarrow>
   to_dict (concat (map (\<lambda>n. map (Pair n) (vs n)) ns)) =
     concat (map (\<lambda>n. case vs n of [] \<Rightarrow> [] | v # r \<Rightarrow> [(n, last (v # r))]) ns)"
proof (induction ns)
  case Nil then show ?case by simp
next
  case (Cons n ns)
  let ?rest = "concat (map (\<lambda>n. map (Pair n) (vs n)) ns)"
  have keys: "fst p \<noteq> n" if "p \<in> set ?rest" for p
    using that Cons.prems by auto
  then have f1: "filter (\<lambda>p. fst p = n) ?rest = []" by (simp add: filter_empty_conv)
  have f2: "filter (\<lambda>p. fst p \<noteq> n) ?rest = ?rest" using keys by (simp add: filter_id_conv)
  show ?case
  proof (cases "vs n")
    case Nil
    then show ?thesis using Cons by simp
  next
    case (Cons v r)
    have g1: "filter (\<lambda>p. fst p = n) (map (Pair n) r) = map (Pair n) r" by (induction r) auto
    have g2: "filter (\<lambda>p. fst p \<noteq> n) (map (Pair n) r) = []" by (induction r) auto
    have "to_dict ((n, v) # map (Pair n) r @ ?rest) = (n, last (v # r)) # to_dict ?rest"
      by (simp add: f1 f2 g1 g2 comp_def)
    then show ?thesis using Cons Cons.IH Cons.prems by simp
  qed
qed

lemma distinct_pollutants: "distinct (pollutants_of df)"
  by (simp add: pollutants_of_def VOCABULARY_def)

lemma means_entries_spec:
  assumes "columns sf = columns df1"
  shows "map (means_entry L) (to_dict (frame_means L
           (concat (map (\<lambda>n. map (Pair n) (cols_named sf n)) (pollutants_of df1))))) =
         spec_means_entries L sf"
proof -
  let ?vs = "\<lambda>n. map (frame_mean L) (filter numeric_dtype (cols_named sf n))"
  let ?g = "\<lambda>n. case filter numeric_dtype (cols_named sf n) of
                   [] \<Rightarrow> []
                 | c # cs \<Rightarrow> [n @ ''='' @ fmt_2f L (frame_mean L (last (c # cs)))]"
  have 1: "map (means_entry L) (case ?vs n of [] \<Rightarrow> [] | v # r \<Rightarrow> [(n, last (v # r))]) = ?g n"
    for n
    by (cases "filter numeric_dtype (cols_named sf n)")
       (simp_all add: means_entry_def last_map)
  have 2: "(if n \<in> set (columns df1) then ?g n else []) = ?g n" for n
    using assms cols_named_empty_iff [of sf n] by auto
  have "map (means_entry L) (to_dict (frame_means L
           (concat (map (\<lambda>n. map (Pair n) (cols_named sf n)) (pollutants_of df1))))) =
        concat (map ?g (pollutants_of df1))"
    unfolding frame_means_grouped to_dict_grouped [OF distinct_pollutants]
    by (simp add: map_concat comp_def 1)
  also have "\<dots> = concat (map ?g VOCABULARY)"
    unfolding pollutants_of_def concat_map_filter_if by (simp only: 2)
  finally show ?thesis unfolding spec_means_entries_def .
qed

lemma slice_mean_cases:
  "slice_mean L df pol =
     (case cols_named df pol of
        [] \<Rightarrow> Inl KeyError
      | [c] \<Rightarrow> series_mean L c
      | _ \<Rightarrow> Inl ValueError)"
  by (cases "cols_named df pol"; cases "tl (cols_named df pol)")
     (auto simp: slice_mean_def getitem_def)

lemma trend_try_label:
  "(case trend_try L h t pol of Inl e \<Rightarrow> [] | Inr ms \<Rightarrow> ms) = spec_trend_label L h t pol"
proof -
  consider "cols_named h pol = []" | hc where "cols_named h pol = [hc]"
    | "2 \<le> length (cols_named h pol)"
    by (cases "cols_named h pol"; cases "tl (cols_named h pol)") auto
  then show ?thesis
  proof cases
    case 1
    then show ?thesis by (simp add: trend_try_def slice_mean_cases spec_trend_label_def)
  next
    case 3
    then obtain a b r where "cols_named h pol = a # b # r"
      by (cases "cols_named h pol"; cases "tl (cols_named h pol)") auto
    then show ?thesis by (simp add: trend_try_def slice_mean_cases spec_trend_label_def)
  next
    case 2
    consider "cols_named t pol = []" | tc where "cols_named t pol = [tc]"
      | a b r where "cols_named t pol = a # b # r"
      by (cases "cols_named t pol"; cases "tl (cols_named t pol)") auto
    then show ?thesis
    proof cases
      case 1
      then show ?thesis
        using 2 by (simp add: trend_try_def slice_mean_cases spec_trend_label_def split: sum.splits)
    next
      case 3
      then show ?thesis
        using 2 by (simp add: trend_try_def slice_mean_cases spec_trend_label_def split: sum.splits)
    next
      case tc: 2
      show ?thesis
        using 2 tc
        by (cases "series_mean L hc"; cases "series_mean L tc")
           (simp_all add: trend_try_def slice_mean_cases spec_trend_label_def Let_def
              trend_label_def)
    qed
  qed
qed

lemma trend_msgs_labels:
  "trend_msgs L h t pols = concat (map (spec_trend_label L h t) pols)"
  by (induction pols) (simp_all add: trend_try_label)

lemma trend_msgs_append:
  "trend_msgs L h t (ps @ qs) = trend_msgs L h t ps @ trend_msgs L h t qs"
  by (induction ps) simp_all

lemma report_refines:
  assumes ld: "loaded df"
    and srt: "sorting (argsort L)"
    and single: "date_col_single (rename_columns L df)"
  shows
  "\<exists>sf. parse_and_sort L (rename_columns L df) (detect_date_col (rename_columns L df)) = Inr sf \<and>
     columns sf = columns (rename_columns L df) \<and> len_df sf = len_df df \<and>
     desc_lines L df =
       Inr (Text (''Rows: '' @ show_nat (len_df df)) #
            spec_date_lines (loaded_dates L (rename_columns L df)) @
            (if pollutants_of (rename_columns L df) \<noteq> [] then
               Text (''Means: '' @ join ''; '' (spec_means_entries L sf)) #
               spec_trend_lines L (loaded_dates L (rename_columns L df)) sf
                 (pollutants_of (rename_columns L df))
             else [Text NO_POLLUTANTS, ToString (head_df 5 sf)]))"
proof -
  let ?df1 = "rename_columns L df"
  obtain sf where sf: "parse_and_sort L ?df1 (detect_date_col ?df1) = Inr sf"
    and cols: "columns sf = columns ?df1"
    and d: "desc_lines L df =
       Inr (rows_line sf #
            (if present (loaded_dates L ?df1) \<noteq> [] then
               [Text (''Date range: '' @
                      fmt_bound (series_min (loaded_dates L ?df1)) @
                      '' '' @ ARROW @ '' '' @
                      fmt_bound (series_max (loaded_dates L ?df1)))]
             else []) @
            (if pollutants_of ?df1 \<noteq> [] then
               Text (''Means: '' @ join ''; '' (map (means_entry L) (to_dict (frame_means L
                  (concat (map (\<lambda>n. map (Pair n) (cols_named sf n)) (pollutants_of ?df1))))))) #
               (if present (loaded_dates L ?df1) \<noteq> [] \<and> 8 \<le> len_df sf \<and>
                   trend_msgs L (head_df (len_df sf div 4) sf) (tail_df (len_df sf div 4) sf)
                     (pollutants_of ?df1) \<noteq> []
                then [Text (''Simple trends: '' @ join ''; ''
                        (trend_msgs L (head_df (len_df sf div 4) sf) (tail_df (len_df sf div 4) sf)
                           (pollutants_of ?df1)))]
                else [])
             else [Text NO_POLLUTANTS, ToString (head_df 5 sf)]))"
    using report_shape [OF srt single] by blast
  have len: "len_df sf = len_df df"
    using single
  proof (cases rule: date_col_single_cases)
    case 1
    then have "sf = ?df1" using sf by (simp add: parse_and_sort_def)
    then show ?thesis by (simp add: len_df_rename)
  next
    case (2 dc c)
    have "c \<in> set (cols_named ?df1 dc)" using 2(2) by simp
    then have "col_len c = len_df df" by (rule loaded_col_len(1) [OF ld])
    then show ?thesis using sorted_frame_len [OF srt 2(2)] sf 2(1) by simp
  qed
  show ?thesis
    using sf cols len d means_entries_spec [OF cols, of L]
    by (simp add: rows_line_def spec_date_lines_def spec_trend_lines_def spec_trend_labels_def
        trend_msgs_labels)
qed

lemma not_prefix_lines:
  "\<not> prefix ''Means:'' (''Rows: '' @ a)" "\<not> prefix ''Means:'' (''Date range: '' @ b)"
  "\<not> prefix ''Means:'' (''Simple trends: '' @ c)" "\<not> prefix ''Means:'' NO_POLLUTANTS"
  "\<not> prefix ''Date range:'' (''Rows: '' @ a)" "\<not> prefix ''Date range:'' (''Means: '' @ b)"
  "\<not> prefix ''Date range:'' (''Simple trends: '' @ c)" "\<not> prefix ''Date range:'' NO_POLLUTANTS"
  "\<not> prefix ''Simple trends: '' (''Rows: '' @ a)" "\<not> prefix ''Simple trends: '' (''Means: '' @ b)"
  "\<not> prefix ''Simple trends: '' (''Date range: '' @ c)" "\<not> prefix ''Simple trends: '' NO_POLLUTANTS"
  by (simp_all add: NO_POLLUTANTS_def)

lemma prefix_lines:
  "prefix ''Date range:'' (''Date range: '' @ a)"
  "prefix ''Simple trends: '' (''Simple trends: '' @ b)"
  "prefix ''Means:'' (''Means: '' @ c)"
  by simp_all

lemma report_text_lines:
  "Text s \<in> set (Text R # spec_date_lines lds @
      (if P then Text M # spec_trend_lines L lds sf pols else [Text N, ToString f])) \<longleftrightarrow>
   s = R \<or>
   (present lds \<noteq> [] \<and>
    s = ''Date range: '' @ fmt_bound (series_min lds) @ '' '' @ ARROW @ '' '' @
        fmt_bound (series_max lds)) \<or>
   (P \<and> s = M) \<or>
   (P \<and> present lds \<noteq> [] \<and> 8 \<le> len_df sf \<and> spec_trend_labels L sf pols \<noteq> [] \<and>
    s = ''Simple trends: '' @ join ''; '' (spec_trend_labels L sf pols)) \<or>
   (\<not> P \<and> s = N)"
  unfolding spec_date_lines_def spec_trend_lines_def by auto

lemma show_nat_digits: "set (show_nat n) \<subseteq> set ''0123456789''"
proof (induction n rule: show_nat.induct)
  case (1 n)
  have d: "digit_char k \<in> set ''0123456789''" for k
    unfolding digit_char_def by (rule nth_mem) simp
  show ?case
  proof (cases "n < 10")
    case True
    then show ?thesis using d [of n] by (subst show_nat.simps) simp
  next
    case False
    then show ?thesis using 1 d [of "n mod 10"] by (subst show_nat.simps) simp
  qed
qed

lemma zfill_digits: "set (zfill w (show_nat k)) \<subseteq> set ''0123456789''"
proof -
  have "set (zfill w (show_nat k)) \<subseteq> insert (CHR ''0'') (set (show_nat k))"
    by (auto simp: zfill_def)
  also have "\<dots> \<subseteq> set ''0123456789''"
    using show_nat_digits [of k] by simp
  finally show ?thesis .
qed

lemma no_N_in_date: "CHR ''N'' \<notin> set (fmt_date d)"
proof -
  obtain y m dd where d: "d = (y, m, dd)" by (cases d) auto
  have n: "CHR ''N'' \<notin> set ''0123456789''" by simp
  have "CHR ''N'' \<notin> set (zfill w (show_nat k))" for w k
    using zfill_digits [of w k] n by blast
  then show ?thesis
    unfolding d fmt_date_def by simp
qed

lemma no_na_in_dates:
  "\<not> sublist ''N/A'' (''Date range: '' @ fmt_date a @ '' '' @ ARROW @ '' '' @ fmt_date b)"
proof
  assume "sublist ''N/A'' (''Date range: '' @ fmt_date a @ '' '' @ ARROW @ '' '' @ fmt_date b)"
  then have "set ''N/A'' \<subseteq> set (''Date range: '' @ fmt_date a @ '' '' @ ARROW @ '' '' @ fmt_date b)"
    by (rule set_mono_sublist)
  then have "CHR ''N'' \<in> set (''Date range: '' @ fmt_date a @ '' '' @ ARROW @ '' '' @ fmt_date b)"
    by simp
  then show False
    using no_N_in_date [of a] no_N_in_date [of b] by (simp add: ARROW_def)
qed

lemma fmt_bound_min:
  "present ds \<noteq> [] \<Longrightarrow> fmt_bound (series_min ds) = fmt_date (fst (Min (set (present ds))))"
  by (simp add: series_min_Min fmt_bound_def split: prod.splits)

lemma fmt_bound_max:
  "present ds \<noteq> [] \<Longrightarrow> fmt_bound (series_max ds) = fmt_date (fst (Max (set (present ds))))"
  by (simp add: series_max_Max fmt_bound_def split: prod.splits)

lemma take_rows_id: "take_rows [0..<col_len c] c = c"
  by (cases c) (simp_all add: map_nth)

lemma sorted_frame_rows:
  assumes ld: "loaded df"
    and srt: "sorting (argsort L)"
    and sf: "parse_and_sort L (rename_columns L df) (detect_date_col (rename_columns L df)) = Inr sf"
  shows "\<exists>p. mset p = mset [0..<len_df df] \<and>
           (\<forall>n. detect_date_col (rename_columns L df) \<noteq> Some n \<longrightarrow>
                cols_named sf n = map (take_rows p) (cols_named (rename_columns L df) n))"
proof -
  let ?df1 = "rename_columns L df"
  have "date_col_single ?df1" using sf parse_and_sort_returns by blast
  then show ?thesis
  proof (cases rule: date_col_single_cases)
    case 1
    then have e: "sf = ?df1" using sf by (simp add: parse_and_sort_def)
    have "map (take_rows [0..<len_df df]) (cols_named ?df1 n) = cols_named ?df1 n" for n
    proof -
      have "take_rows [0..<len_df df] c = c" if "c \<in> set (cols_named ?df1 n)" for c
        using loaded_col_len(1) [OF ld that] take_rows_id [of c] by simp
      then show ?thesis by (simp add: map_idI)
    qed
    then have "\<forall>n. detect_date_col ?df1 \<noteq> Some n \<longrightarrow>
                cols_named sf n = map (take_rows [0..<len_df df]) (cols_named ?df1 n)"
      using e by simp
    then show ?thesis by (intro exI [of _ "[0..<len_df df]"] conjI refl)
  next
    case (2 dc c)
    have sf': "parse_and_sort L ?df1 (Some dc) = Inr sf" using sf 2(1) by simp
    let ?p = "nargsort L (parse_column L c)"
    have "c \<in> set (cols_named ?df1 dc)" using 2(2) by simp
    then have "col_len c = len_df df" by (rule loaded_col_len(1) [OF ld])
    then have "mset ?p = mset [0..<len_df df]"
      using mset_nargsort [OF srt, of "parse_column L c"] by (simp add: length_parse_column)
    moreover have "cols_named sf n = map (take_rows ?p) (cols_named ?df1 n)" if "n \<noteq> dc" for n
      by (rule sorted_frame_other_col [OF 2(2) sf' that])
    ultimately show ?thesis using 2(1) by (intro exI [of _ ?p]) auto
  qed
qed

lemma cols_named_head_df: "cols_named (head_df k df) n = map (head_col k) (cols_named df n)"
  unfolding head_df_def by (rule cols_named_map_cols)

lemma cols_named_tail_df: "cols_named (tail_df k df) n = map (tail_col k) (cols_named df n)"
  unfolding tail_df_def by (rule cols_named_map_cols)






lemma vocabulary_not_date: "n \<in> set VOCABULARY \<Longrightarrow> n \<notin> set DATE_CANDIDATES"
  by (auto simp: VOCABULARY_def DATE_CANDIDATES_def)

lemma returned_single:
  "desc_lines L df = Inr ls \<Longrightarrow> date_col_single (rename_columns L df)"
  using desc_lines_raises [of L df] by auto

lemma numeric_dtype_take_rows: "numeric_dtype (take_rows p c) = numeric_dtype c"
  by (cases c) auto


subsection \<open>Evaluation at concrete inputs\<close>

lemma show_nat_numeral:
  "show_nat (numeral k) =
     (if numeral k < (10::nat) then [digit_char (numeral k)]
      else show_nat (numeral k div 10) @ [digit_char (numeral k mod 10)])"
  by (rule show_nat.simps)

lemma show_nat_0: "show_nat 0 = ''0''"
  by (simp add: show_nat.simps [of 0] digit_char_def)

lemma show_nat_Suc_digit:
  "Suc n < 10 \<Longrightarrow> show_nat (Suc n) = [''123456789'' ! n]"
  by (simp add: show_nat.simps [of "Suc n"] digit_char_def)

lemma floor_rat_divide_numeral:
  "\<lfloor>numeral a / numeral b :: rat\<rfloor> = numeral a div numeral b"
  by (metis floor_divide_of_int_eq of_int_numeral)

lemma floor_rat_one_divide_numeral: "\<lfloor>1 / numeral b :: rat\<rfloor> = 1 div numeral b"
  by (metis floor_divide_of_int_eq of_int_numeral of_int_1)

lemmas fmt_eval = two_decimals_def round_half_even_def show_nat_numeral show_nat_0
  show_nat_Suc_digit zfill_def digit_char_def Let_def fmt_float_def means_entry_def mean_list_def
  present_def floor_rat_divide_numeral floor_rat_one_divide_numeral

lemmas frame_eval = columns_def len_df_def cols_named_def getitem_def setitem_def is_space_def
  strip_def lower_char_def lower_def rename_columns_def DATE_CANDIDATES_def detect_date_col_def
  parse_column_def to_datetime_def nargsort_def sort_values_def parse_and_sort_def
  head_df_def tail_df_def date_values_def series_min_def series_max_def fmt_date_def
  bool_num_def ARROW_def VOCABULARY_def pollutants_of_def rows_line_def has_dates_def
  fmt_bound_def date_range_lines_def means_line_def frame_means_def slice_mean_def
  trend_label_def trend_try_def trend_lines_def NO_POLLUTANTS_def desc_lines_def render_def
  analyze_air_quality_csv_def loaded_def digit_val_def days_in_month_def parse_iso_date_def
  iso_dates_def stable_argsort_def exact_lib_def exact_sub_def exact_abs_lt_eps_def
  exact_lt_zero_def exact_notna_def date_col_single_def

lemma sorting_exact: "sorting (argsort exact_lib)"
  by (simp add: exact_lib_def sorting_stable)

lemma trend_frame_loaded: "loaded trend_frame"
  by (simp add: trend_frame_def frame_eval)

lemma trend_frame_date_col: "detect_date_col (rename_columns exact_lib trend_frame) = Some ''date''"
  by (simp add: trend_frame_def frame_eval)



lemma trend_frame_sorted:
  "parse_and_sort exact_lib (rename_columns exact_lib trend_frame) (Some ''date'') = Inr trend_sorted"
  by (simp add: trend_frame_def trend_sorted_def frame_eval)

lemma trend_sorted_len: "len_df trend_sorted = 8"
  by (simp add: trend_sorted_def len_df_def)

lemma trend_sorted_pollutants: "pollutants_of trend_sorted = [''pm25'', ''pm10'', ''no2'', ''co'']"
  by (simp add: trend_sorted_def frame_eval)

lemma trend_sorted_dates:
  "date_range_lines trend_sorted (Some ''date'') =
     Inr [Text (''Date range: 2025-01-01 '' @ ARROW @ '' 2025-09-01'')]"
  by (simp add: trend_sorted_def frame_eval fmt_eval)

lemma trend_sorted_means:
  "means_line exact_lib trend_sorted [''pm25'', ''pm10'', ''no2'', ''co''] =
     Inr (Text ''Means: pm25=32.07; no2=nan; co=0.62'')"
  by (simp add: trend_sorted_def frame_eval fmt_eval)

lemma trend_sorted_msgs:
  "trend_msgs exact_lib (head_df 2 trend_sorted) (tail_df 2 trend_sorted)
     [''pm25'', ''pm10'', ''no2'', ''co''] =
     [''pm25: increasing (~25.50)'', ''co: increasing (~1.00)'']"
  by (simp add: trend_sorted_def frame_eval fmt_eval)

lemma trend_sorted_has_dates: "has_dates trend_sorted (Some ''date'') = Inr True"
  by (simp add: trend_sorted_def has_dates_def getitem_def cols_named_def present_def)

lemma trend_sorted_trends:
  "trend_lines exact_lib trend_sorted (Some ''date'') [''pm25'', ''pm10'', ''no2'', ''co''] =
     Inr [Text ''Simple trends: pm25: increasing (~25.50); co: increasing (~1.00)'']"
  unfolding trend_lines_def Let_def trend_sorted_len trend_sorted_has_dates
  by (simp add: trend_sorted_msgs del: trend_msgs.simps)

lemma trend_sorted_rows: "rows_line trend_sorted = Text ''Rows: 8''"
  unfolding rows_line_def trend_sorted_len by (simp add: fmt_eval)

lemma trend_frame_report:
  "desc_lines exact_lib trend_frame =
     Inr [Text ''Rows: 8'',
          Text (''Date range: 2025-01-01 '' @ ARROW @ '' 2025-09-01''),
          Text ''Means: pm25=32.07; no2=nan; co=0.62'',
          Text ''Simple trends: pm25: increasing (~25.50); co: increasing (~1.00)'']"
  using desc_lines_eq [of exact_lib trend_frame trend_sorted, unfolded trend_frame_date_col,
      OF trend_frame_sorted, unfolded trend_sorted_pollutants,
      OF trend_sorted_dates trend_sorted_means trend_sorted_trends]
  by (simp add: trend_sorted_rows)



lemma trend_frame_dates:
  "loaded_dates exact_lib (rename_columns exact_lib trend_frame) =
     [Some ((2025, 8, 1), 0), Some ((2025, 3, 1), 0), None, Some ((2025, 7, 1), 0),
      Some ((2025, 1, 1), 0), Some ((2025, 2, 1), 0), None, Some ((2025, 9, 1), 0)]"
  by (simp add: trend_frame_def loaded_dates_def frame_eval)












lemma text_frame_loaded: "loaded text_frame"
  by (simp add: text_frame_def frame_eval)

lemma text_frame_date_col: "detect_date_col (rename_columns exact_lib text_frame) = Some ''date''"
  by (simp add: text_frame_def frame_eval)

lemma text_frame_single: "date_col_single (rename_columns exact_lib text_frame)"
  by (simp add: text_frame_def frame_eval)

lemma text_frame_pollutants:
  "pollutants_of (rename_columns exact_lib text_frame) = [''pm25'', ''co'']"
  by (simp add: text_frame_def frame_eval)

lemma text_frame_dtypes:
  "list_all (\<lambda>c. \<not> numeric_dtype c) (cols_named (rename_columns exact_lib text_frame) ''pm25'')"
  "list_all (\<lambda>c. \<not> numeric_dtype c) (cols_named (rename_columns exact_lib text_frame) ''co'')"
  by (simp_all add: text_frame_def frame_eval)

lemma text_frame_sorted:
  "parse_and_sort exact_lib (rename_columns exact_lib text_frame) (Some ''date'') = Inr text_sorted"
  by (simp add: text_frame_def text_sorted_def frame_eval)

lemma text_sorted_len: "len_df text_sorted = 8"
  by (simp add: text_sorted_def len_df_def)

lemma text_sorted_pollutants: "pollutants_of text_sorted = [''pm25'', ''co'']"
  by (simp add: text_sorted_def frame_eval)

lemma text_sorted_dates:
  "date_range_lines text_sorted (Some ''date'') =
     Inr [Text (''Date range: 2025-01-01 '' @ ARROW @ '' 2025-08-01'')]"
  by (simp add: text_sorted_def frame_eval fmt_eval)

lemma text_sorted_means:
  "means_line exact_lib text_sorted [''pm25'', ''co''] = Inr (Text ''Means: '')"
  by (simp add: text_sorted_def frame_eval fmt_eval)

lemma text_sorted_msgs:
  "trend_msgs exact_lib (head_df 2 text_sorted) (tail_df 2 text_sorted) [''pm25'', ''co''] =
     [''co: decreasing (~-1.00)'']"
  by (simp add: text_sorted_def frame_eval fmt_eval)

lemma text_sorted_has_dates: "has_dates text_sorted (Some ''date'') = Inr True"
  by (simp add: text_sorted_def has_dates_def getitem_def cols_named_def present_def)

lemma text_sorted_trends:
  "trend_lines exact_lib text_sorted (Some ''date'') [''pm25'', ''co''] =
     Inr [Text ''Simple trends: co: decreasing (~-1.00)'']"
  unfolding trend_lines_def Let_def text_sorted_len text_sorted_has_dates
  by (simp add: text_sorted_msgs del: trend_msgs.simps)

lemma text_sorted_rows: "rows_line text_sorted = Text ''Rows: 8''"
  unfolding rows_line_def text_sorted_len by (simp add: fmt_eval)

lemma text_frame_report:
  "desc_lines exact_lib text_frame =
     Inr [Text ''Rows: 8'',
          Text (''Date range: 2025-01-01 '' @ ARROW @ '' 2025-08-01''),
          Text ''Means: '',
          Text ''Simple trends: co: decreasing (~-1.00)'']"
  using desc_lines_eq [of exact_lib text_frame text_sorted, unfolded text_frame_date_col,
      OF text_frame_sorted, unfolded text_sorted_pollutants,
      OF text_sorted_dates text_sorted_means text_sorted_trends]
  by (simp add: text_sorted_rows)





lemma trend_frame_bounds:
  "series_min (loaded_dates exact_lib (rename_columns exact_lib trend_frame)) = Some ((2025, 1, 1), 0)"
  "series_max (loaded_dates exact_lib (rename_columns exact_lib trend_frame)) = Some ((2025, 9, 1), 0)"
  by (simp_all add: trend_frame_dates series_min_def series_max_def present_def)



lemma text_frame_sorted_detected:
  "parse_and_sort exact_lib (rename_columns exact_lib text_frame)
     (detect_date_col (rename_columns exact_lib text_frame)) = Inr text_sorted"
  using text_frame_sorted by (simp add: text_frame_date_col)

lemma shuffled_frame_loaded: "loaded shuffled_frame"
  by (simp add: shuffled_frame_def frame_eval)

lemma shuffled_frame_date_col:
  "detect_date_col (rename_columns exact_lib shuffled_frame) = Some ''date''"
  by (simp add: shuffled_frame_def frame_eval)

lemma shuffled_frame_single: "date_col_single (rename_columns exact_lib shuffled_frame)"
  by (simp add: shuffled_frame_def frame_eval)

lemma shuffled_frame_len: "len_df shuffled_frame = 3"
  by (simp add: shuffled_frame_def len_df_def)

lemma shuffled_frame_sorted:
  "parse_and_sort exact_lib (rename_columns exact_lib shuffled_frame) (Some ''date'') =
     Inr [(''city'', ObjCol [Some (Str ''Multan''), Some (Str ''Lahore''), Some (Str ''Karachi'')]),
          (''date'', DateCol [Some ((2025, 1, 1), 0), Some ((2025, 3, 1), 0), None]),
          (''pm25'', NumCol [Some 65, Some 58, Some 50])]"
  by (simp add: shuffled_frame_def frame_eval)

lemma shuffled_frame_report:
  "desc_lines exact_lib shuffled_frame =
     Inr [Text ''Rows: 3'',
          Text (''Date range: 2025-01-01 '' @ ARROW @ '' 2025-03-01''),
          Text ''Means: pm25=57.67'']"
  by (simp add: shuffled_frame_def frame_eval fmt_eval)




lemma empty_column_frame_report:
  "desc_lines exact_lib empty_column_frame = Inr [Text ''Rows: 2'', Text ''Means: pm25=nan'']"
  by (simp add: empty_column_frame_def frame_eval fmt_eval)

section \<open>The claims\<close>






text \<open>
  C3. On the four-row sample (header \<^verbatim>\<open>date,pm25,pm10,no2\<close>, rows
  \<^verbatim>\<open>2025-01-01,65,118,40\<close>, \<^verbatim>\<open>2025-03-01,58,100,38\<close>, \<^verbatim>\<open>2025-05-01,50,92,35\<close>,
  \<^verbatim>\<open>2025-07-01,44,85,32\<close>) the report is exactly the three lines
  \<^verbatim>\<open>Rows: 4\<close>, \<^verbatim>\<open>Date range: 2025-01-01 -> 2025-07-01\<close> (with the arrow U+2192) and
  \<^verbatim>\<open>Means: pm25=54.25; pm10=98.75; no2=36.25\<close>; there is no trend line. The returned
  text is these lines joined by newlines, whatever the renderer of frames is. The three
  means are quarters of integers, which \<^verbatim>\<open>float64\<close> holds exactly.
\<close>

theorem sample_report:
  "desc_lines exact_lib sample_frame =
     Inr [Text ''Rows: 4'',
          Text (''Date range: 2025-01-01 '' @ ARROW @ '' 2025-07-01''),
          Text ''Means: pm25=54.25; pm10=98.75; no2=36.25''] \<and>
   analyze_air_quality_csv ts exact_lib sample_frame =
     Inr (''Rows: 4'' @ [CHR 0x0A] @
          ''Date range: 2025-01-01 '' @ ARROW @ '' 2025-07-01'' @ [CHR 0x0A] @
          ''Means: pm25=54.25; pm10=98.75; no2=36.25'')"
proof -
  have d: "desc_lines exact_lib sample_frame =
     Inr [Text ''Rows: 4'',
          Text (''Date range: 2025-01-01 '' @ ARROW @ '' 2025-07-01''),
          Text ''Means: pm25=54.25; pm10=98.75; no2=36.25'']"
    by (simp add: sample_frame_def frame_eval fmt_eval)
  show ?thesis
    unfolding analyze_air_quality_csv_def d by (simp add: render_def)
qed

text \<open>
  C4. Whenever the report is returned for a loaded frame: a \<^verbatim>\<open>Date range:\<close> line is
  in it if and only if a date column was recognised and some row has a parsed date. The
  line shows the minimum and the maximum of the parsed dates that are not missing, each as
  year, month and day of the month in the form \<^verbatim>\<open>YYYY-MM-DD\<close> without the time of
  day, and \<^verbatim>\<open>N/A\<close> for a bound only when that bound is missing.
\<close>

theorem date_range_line_iff:
  assumes "loaded df" and "sorting (argsort L)" and "desc_lines L df = Inr ls"
  shows
    "((\<exists>s. Text s \<in> set ls \<and> prefix ''Date range:'' s) \<longleftrightarrow>
        detect_date_col (rename_columns L df) \<noteq> None \<and>
        present (loaded_dates L (rename_columns L df)) \<noteq> []) \<and>
     (\<forall>s. Text s \<in> set ls \<and> prefix ''Date range:'' s \<longrightarrow>
        s = ''Date range: '' @
            (case series_min (loaded_dates L (rename_columns L df)) of
               None \<Rightarrow> ''N/A''
             | Some ((y, m, d), t) \<Rightarrow>
                 zfill 4 (show_nat y) @ ''-'' @ zfill 2 (show_nat m) @ ''-'' @ zfill 2 (show_nat d)) @
            '' '' @ ARROW @ '' '' @
            (case series_max (loaded_dates L (rename_columns L df)) of
               None \<Rightarrow> ''N/A''
             | Some ((y, m, d), t) \<Rightarrow>
                 zfill 4 (show_nat y) @ ''-'' @ zfill 2 (show_nat m) @ ''-'' @ zfill 2 (show_nat d))) \<and>
     series_min (loaded_dates L (rename_columns L df)) =
       (if present (loaded_dates L (rename_columns L df)) = [] then None
        else Some (Min (set (present (loaded_dates L (rename_columns L df)))))) \<and>
     series_max (loaded_dates L (rename_columns L df)) =
       (if present (loaded_dates L (rename_columns L df)) = [] then None
        else Some (Max (set (present (loaded_dates L (rename_columns L df))))))"
proof -
  let ?df1 = "rename_columns L df"
  let ?lds = "loaded_dates L ?df1"
  let ?line = "''Date range: '' @ fmt_bound (series_min ?lds) @ '' '' @ ARROW @ '' '' @
        fmt_bound (series_max ?lds)"
  have single: "date_col_single ?df1" by (rule returned_single [OF assms(3)])
  obtain sf where d: "desc_lines L df =
       Inr (Text (''Rows: '' @ show_nat (len_df df)) #
            spec_date_lines ?lds @
            (if pollutants_of ?df1 \<noteq> [] then
               Text (''Means: '' @ join ''; '' (spec_means_entries L sf)) #
               spec_trend_lines L ?lds sf (pollutants_of ?df1)
             else [Text NO_POLLUTANTS, ToString (head_df 5 sf)]))"
    (is "_ = Inr ?ls")
    using report_refines [OF assms(1,2) single] by blast
  have ls: "ls = ?ls" using d assms(3) by simp
  have n: "present ?lds \<noteq> [] \<Longrightarrow> detect_date_col ?df1 \<noteq> None"
    using loaded_dates_None [of ?df1 L]
    by (cases "detect_date_col ?df1") (simp_all add: present_def)
  have mem: "Text s \<in> set ?ls \<and> prefix ''Date range:'' s \<longleftrightarrow> present ?lds \<noteq> [] \<and> s = ?line"
    for s
    unfolding report_text_lines
    using not_prefix_lines(5-8) prefix_lines(1) by blast
  have a: "(\<exists>s. Text s \<in> set ls \<and> prefix ''Date range:'' s) \<longleftrightarrow>
        detect_date_col ?df1 \<noteq> None \<and> present ?lds \<noteq> []"
    unfolding ls using mem n by blast
  have fb: "fmt_bound x =
      (case x of
         None \<Rightarrow> ''N/A''
       | Some ((y, m, d), t) \<Rightarrow>
           zfill 4 (show_nat y) @ ''-'' @ zfill 2 (show_nat m) @ ''-'' @ zfill 2 (show_nat d))"
    for x
    by (simp add: fmt_bound_def fmt_date_def split: option.splits prod.splits)
  have b: "\<forall>s. Text s \<in> set ls \<and> prefix ''Date range:'' s \<longrightarrow>
        s = ''Date range: '' @
            (case series_min ?lds of
               None \<Rightarrow> ''N/A''
             | Some ((y, m, d), t) \<Rightarrow>
                 zfill 4 (show_nat y) @ ''-'' @ zfill 2 (show_nat m) @ ''-'' @ zfill 2 (show_nat d)) @
            '' '' @ ARROW @ '' '' @
            (case series_max ?lds of
               None \<Rightarrow> ''N/A''
             | Some ((y, m, d), t) \<Rightarrow>
                 zfill 4 (show_nat y) @ ''-'' @ zfill 2 (show_nat m) @ ''-'' @ zfill 2 (show_nat d))"
    unfolding ls using mem by (simp only: fb [symmetric]) blast
  show ?thesis
    using a b series_min_Min [of ?lds] series_max_Max [of ?lds] by blast
qed

theorem date_range_line_iff_witness:
  "loaded trend_frame \<and> sorting (argsort exact_lib) \<and>
   desc_lines exact_lib trend_frame =
     Inr [Text ''Rows: 8'',
          Text (''Date range: 2025-01-01 '' @ ARROW @ '' 2025-09-01''),
          Text ''Means: pm25=32.07; no2=nan; co=0.62'',
          Text ''Simple trends: pm25: increasing (~25.50); co: increasing (~1.00)''] \<and>
   loaded_dates exact_lib (rename_columns exact_lib trend_frame) =
     [Some ((2025, 8, 1), 0), Some ((2025, 3, 1), 0), None, Some ((2025, 7, 1), 0),
      Some ((2025, 1, 1), 0), Some ((2025, 2, 1), 0), None, Some ((2025, 9, 1), 0)] \<and>
   series_min (loaded_dates exact_lib (rename_columns exact_lib trend_frame)) =
     Some ((2025, 1, 1), 0) \<and>
   series_max (loaded_dates exact_lib (rename_columns exact_lib trend_frame)) =
     Some ((2025, 9, 1), 0) \<and>
   (\<exists>ls. desc_lines exact_lib trend_frame = Inr ls \<and>
     ((\<exists>s. Text s \<in> set ls \<and> prefix ''Date range:'' s) \<longleftrightarrow>
        detect_date_col (rename_columns exact_lib trend_frame) \<noteq> None \<and>
        present (loaded_dates exact_lib (rename_columns exact_lib trend_frame)) \<noteq> []) \<and>
     (\<forall>s. Text s \<in> set ls \<and> prefix ''Date range:'' s \<longrightarrow>
        s = ''Date range: '' @
            (case series_min (loaded_dates exact_lib (rename_columns exact_lib trend_frame)) of
               None \<Rightarrow> ''N/A''
             | Some ((y, m, d), t) \<Rightarrow>
                 zfill 4 (show_nat y) @ ''-'' @ zfill 2 (show_nat m) @ ''-'' @ zfill 2 (show_nat d)) @
            '' '' @ ARROW @ '' '' @
            (case series_max (loaded_dates exact_lib (rename_columns exact_lib trend_frame)) of
               None \<Rightarrow> ''N/A''
             | Some ((y, m, d), t) \<Rightarrow>
                 zfill 4 (show_nat y) @ ''-'' @ zfill 2 (show_nat m) @ ''-'' @ zfill 2 (show_nat d))) \<and>
     series_min (loaded_dates exact_lib (rename_columns exact_lib trend_frame)) =
       (if present (loaded_dates exact_lib (rename_columns exact_lib trend_frame)) = [] then None
        else Some (Min (set (present (loaded_dates exact_lib (rename_columns exact_lib trend_frame)))))) \<and>
     series_max (loaded_dates exact_lib (rename_columns exact_lib trend_frame)) =
       (if present (loaded_dates exact_lib (rename_columns exact_lib trend_frame)) = [] then None
        else Some (Max (set (present (loaded_dates exact_lib (rename_columns exact_lib trend_frame)))))))"
  using date_range_line_iff [OF trend_frame_loaded sorting_exact trend_frame_report]
    trend_frame_loaded sorting_exact trend_frame_report trend_frame_dates trend_frame_bounds
  by (intro conjI exI [of _ "[Text ''Rows: 8'',
          Text (''Date range: 2025-01-01 '' @ ARROW @ '' 2025-09-01''),
          Text ''Means: pm25=32.07; no2=nan; co=0.62'',
          Text ''Simple trends: pm25: increasing (~25.50); co: increasing (~1.00)'']"]) blast+






text \<open>
  C7. When a date column is recognised and one column bears its name, the sort keeps the
  number of rows, whatever it does with equal dates, and the count printed in the first
  line of the report is the number of rows of the frame as loaded.
\<close>

theorem rows_count_unaffected_by_sort:
  assumes "loaded df" and "sorting (argsort L)"
    and "detect_date_col (rename_columns L df) = Some dc"
    and "date_col_single (rename_columns L df)"
  shows "\<exists>sf rest. parse_and_sort L (rename_columns L df) (Some dc) = Inr sf \<and>
           len_df sf = len_df df \<and>
           desc_lines L df = Inr (Text (''Rows: '' @ show_nat (len_df df)) # rest)"
proof -
  obtain sf where sf: "parse_and_sort L (rename_columns L df)
        (detect_date_col (rename_columns L df)) = Inr sf"
    and len: "len_df sf = len_df df"
    and d: "desc_lines L df =
       Inr (Text (''Rows: '' @ show_nat (len_df df)) #
            spec_date_lines (loaded_dates L (rename_columns L df)) @
            (if pollutants_of (rename_columns L df) \<noteq> [] then
               Text (''Means: '' @ join ''; '' (spec_means_entries L sf)) #
               spec_trend_lines L (loaded_dates L (rename_columns L df)) sf
                 (pollutants_of (rename_columns L df))
             else [Text NO_POLLUTANTS, ToString (head_df 5 sf)]))"
    using report_refines [OF assms(1,2,4)] by blast
  from sf have "parse_and_sort L (rename_columns L df) (Some dc) = Inr sf"
    using assms(3) by simp
  with len d show ?thesis by blast
qed

theorem rows_count_unaffected_by_sort_witness:
  "loaded shuffled_frame \<and> sorting (argsort exact_lib) \<and>
   detect_date_col (rename_columns exact_lib shuffled_frame) = Some ''date'' \<and>
   date_col_single (rename_columns exact_lib shuffled_frame) \<and>
   len_df shuffled_frame = 3 \<and>
   parse_and_sort exact_lib (rename_columns exact_lib shuffled_frame) (Some ''date'') =
     Inr [(''city'', ObjCol [Some (Str ''Multan''), Some (Str ''Lahore''), Some (Str ''Karachi'')]),
          (''date'', DateCol [Some ((2025, 1, 1), 0), Some ((2025, 3, 1), 0), None]),
          (''pm25'', NumCol [Some 65, Some 58, Some 50])] \<and>
   desc_lines exact_lib shuffled_frame =
     Inr [Text ''Rows: 3'',
          Text (''Date range: 2025-01-01 '' @ ARROW @ '' 2025-03-01''),
          Text ''Means: pm25=57.67''] \<and>
   (\<exists>sf rest. parse_and_sort exact_lib (rename_columns exact_lib shuffled_frame) (Some ''date'') = Inr sf \<and>
        len_df sf = len_df shuffled_frame \<and>
        desc_lines exact_lib shuffled_frame =
          Inr (Text (''Rows: '' @ show_nat (len_df shuffled_frame)) # rest))"
  using rows_count_unaffected_by_sort [OF shuffled_frame_loaded sorting_exact
      shuffled_frame_date_col shuffled_frame_single]
    shuffled_frame_loaded sorting_exact shuffled_frame_date_col shuffled_frame_single
    shuffled_frame_len shuffled_frame_sorted shuffled_frame_report
  by (intro conjI) blast+

text \<open>
  C9. Every \<^verbatim>\<open>Date range:\<close> line of a report shows two dates: some parsed date is
  present, the minimum and the maximum are taken over the present dates and so are not
  missing, and the text \<^verbatim>\<open>N/A\<close> does not occur in the line.
\<close>

theorem date_range_never_na:
  assumes "loaded df" and "sorting (argsort L)" and "desc_lines L df = Inr ls"
    and "Text s \<in> set ls" and "prefix ''Date range:'' s"
  shows "present (loaded_dates L (rename_columns L df)) \<noteq> [] \<and>
         series_min (loaded_dates L (rename_columns L df)) =
           Some (Min (set (present (loaded_dates L (rename_columns L df))))) \<and>
         series_max (loaded_dates L (rename_columns L df)) =
           Some (Max (set (present (loaded_dates L (rename_columns L df))))) \<and>
         s = ''Date range: '' @
             fmt_date (fst (Min (set (present (loaded_dates L (rename_columns L df)))))) @
             '' '' @ ARROW @ '' '' @
             fmt_date (fst (Max (set (present (loaded_dates L (rename_columns L df)))))) \<and>
         \<not> sublist ''N/A'' s"
proof -
  let ?df1 = "rename_columns L df"
  let ?lds = "loaded_dates L ?df1"
  have single: "date_col_single ?df1" by (rule returned_single [OF assms(3)])
  obtain sf where d: "desc_lines L df =
       Inr (Text (''Rows: '' @ show_nat (len_df df)) #
            spec_date_lines ?lds @
            (if pollutants_of ?df1 \<noteq> [] then
               Text (''Means: '' @ join ''; '' (spec_means_entries L sf)) #
               spec_trend_lines L ?lds sf (pollutants_of ?df1)
             else [Text NO_POLLUTANTS, ToString (head_df 5 sf)]))"
    (is "_ = Inr ?ls")
    using report_refines [OF assms(1,2) single] by blast
  have ls: "ls = ?ls" using d assms(3) by simp
  have "Text s \<in> set ?ls \<and> prefix ''Date range:'' s" using assms(4,5) ls by simp
  then have p: "present ?lds \<noteq> []"
    and s: "s = ''Date range: '' @ fmt_bound (series_min ?lds) @ '' '' @ ARROW @ '' '' @
        fmt_bound (series_max ?lds)"
    unfolding report_text_lines
    using not_prefix_lines(5-8) by blast+
  have s': "s = ''Date range: '' @ fmt_date (fst (Min (set (present ?lds)))) @
             '' '' @ ARROW @ '' '' @ fmt_date (fst (Max (set (present ?lds))))"
    using s fmt_bound_min [OF p] fmt_bound_max [OF p] by simp
  have "\<not> sublist ''N/A'' s" unfolding s' by (rule no_na_in_dates)
  then show ?thesis
    using p s' by (simp add: series_min_Min series_max_Max)
qed

theorem date_range_never_na_witness:
  "loaded trend_frame \<and> sorting (argsort exact_lib) \<and>
   desc_lines exact_lib trend_frame =
     Inr [Text ''Rows: 8'',
          Text (''Date range: 2025-01-01 '' @ ARROW @ '' 2025-09-01''),
          Text ''Means: pm25=32.07; no2=nan; co=0.62'',
          Text ''Simple trends: pm25: increasing (~25.50); co: increasing (~1.00)''] \<and>
   prefix ''Date range:'' (''Date range: 2025-01-01 '' @ ARROW @ '' 2025-09-01'') \<and>
   present (loaded_dates exact_lib (rename_columns exact_lib trend_frame)) \<noteq> [] \<and>
   series_min (loaded_dates exact_lib (rename_columns exact_lib trend_frame)) =
     Some (Min (set (present (loaded_dates exact_lib (rename_columns exact_lib trend_frame))))) \<and>
   series_max (loaded_dates exact_lib (rename_columns exact_lib trend_frame)) =
     Some (Max (set (present (loaded_dates exact_lib (rename_columns exact_lib trend_frame))))) \<and>
   ''Date range: 2025-01-01 '' @ ARROW @ '' 2025-09-01'' =
     ''Date range: '' @
     fmt_date (fst (Min (set (present (loaded_dates exact_lib (rename_columns exact_lib trend_frame)))))) @
     '' '' @ ARROW @ '' '' @
     fmt_date (fst (Max (set (present (loaded_dates exact_lib (rename_columns exact_lib trend_frame)))))) \<and>
   \<not> sublist ''N/A'' (''Date range: 2025-01-01 '' @ ARROW @ '' 2025-09-01'')"
proof -
  have p: "prefix ''Date range:'' (''Date range: 2025-01-01 '' @ ARROW @ '' 2025-09-01'')"
    by simp
  have i: "Text (''Date range: 2025-01-01 '' @ ARROW @ '' 2025-09-01'') \<in>
           set [Text ''Rows: 8'',
                Text (''Date range: 2025-01-01 '' @ ARROW @ '' 2025-09-01''),
                Text ''Means: pm25=32.07; no2=nan; co=0.62'',
                Text ''Simple trends: pm25: increasing (~25.50); co: increasing (~1.00)'']"
    by simp
  show ?thesis
    using date_range_never_na [OF trend_frame_loaded sorting_exact trend_frame_report i p]
      trend_frame_loaded sorting_exact trend_frame_report p
    by (intro conjI) blast+
qed

text \<open>
  C10, as the code has it. When some vocabulary name is a column, none of the columns
  bearing a vocabulary name is of numeric or boolean dtype, and at most one column bears
  the name of the date column, the report has the line \<^verbatim>\<open>Means: \<close> with nothing
  after it: there is neither the fallback note nor the preview. A trend line may follow
  it, since \<^verbatim>\<open>Series.mean\<close> averages an object column of booleans.
\<close>

theorem bare_means_line:
  assumes "loaded df" and "sorting (argsort L)"
    and "date_col_single (rename_columns L df)"
    and "pollutants_of (rename_columns L df) \<noteq> []"
    and "list_all (\<lambda>n. list_all (\<lambda>c. \<not> numeric_dtype c) (cols_named (rename_columns L df) n))
           (pollutants_of (rename_columns L df))"
  shows "\<exists>sf. parse_and_sort L (rename_columns L df) (detect_date_col (rename_columns L df)) = Inr sf \<and>
           desc_lines L df =
             Inr (Text (''Rows: '' @ show_nat (len_df df)) #
                  spec_date_lines (loaded_dates L (rename_columns L df)) @
                  Text ''Means: '' #
                  spec_trend_lines L (loaded_dates L (rename_columns L df)) sf
                    (pollutants_of (rename_columns L df)))"
proof -
  let ?df1 = "rename_columns L df"
  let ?lds = "loaded_dates L ?df1"
  let ?pols = "pollutants_of ?df1"
  obtain sf where sf: "parse_and_sort L ?df1 (detect_date_col ?df1) = Inr sf"
    and d: "desc_lines L df =
       Inr (Text (''Rows: '' @ show_nat (len_df df)) #
            spec_date_lines ?lds @
            (if ?pols \<noteq> [] then
               Text (''Means: '' @ join ''; '' (spec_means_entries L sf)) #
               spec_trend_lines L ?lds sf ?pols
             else [Text NO_POLLUTANTS, ToString (head_df 5 sf)]))"
    using report_refines [OF assms(1,2,3)] by blast
  obtain p where rows: "\<forall>n. detect_date_col ?df1 \<noteq> Some n \<longrightarrow>
                cols_named sf n = map (take_rows p) (cols_named ?df1 n)"
    using sorted_frame_rows [OF assms(1,2) sf] by blast
  have none: "filter numeric_dtype (cols_named sf n) = []" if n: "n \<in> set VOCABULARY" for n
  proof -
    have "detect_date_col ?df1 \<noteq> Some n"
      using n detect_date_col_in vocabulary_not_date by blast
    then have c: "cols_named sf n = map (take_rows p) (cols_named ?df1 n)" using rows by blast
    show ?thesis
    proof (cases "n \<in> set (columns ?df1)")
      case False
      then have "cols_named ?df1 n = []" by (simp add: cols_named_empty_iff)
      then show ?thesis using c by simp
    next
      case True
      then have "n \<in> set ?pols" using n by (simp add: pollutants_of_def)
      then have "\<forall>c \<in> set (cols_named ?df1 n). \<not> numeric_dtype c"
        using assms(5) by (simp add: list_all_iff)
      then show ?thesis
        unfolding c by (simp add: filter_empty_conv numeric_dtype_take_rows)
    qed
  qed
  have "(case filter numeric_dtype (cols_named sf n) of
           [] \<Rightarrow> []
         | c # cs \<Rightarrow> [n @ ''='' @ fmt_2f L (frame_mean L (last (c # cs)))]) = []"
    if "n \<in> set VOCABULARY" for n
    using none [OF that] by simp
  then have m: "spec_means_entries L sf = []"
    unfolding spec_means_entries_def by simp
  show ?thesis using sf d assms(4) m by simp
qed

theorem bare_means_line_witness:
  "loaded text_frame \<and> sorting (argsort exact_lib) \<and>
   date_col_single (rename_columns exact_lib text_frame) \<and>
   pollutants_of (rename_columns exact_lib text_frame) = [''pm25'', ''co''] \<and>
   list_all (\<lambda>n. list_all (\<lambda>c. \<not> numeric_dtype c) (cols_named (rename_columns exact_lib text_frame) n))
     (pollutants_of (rename_columns exact_lib text_frame)) \<and>
   desc_lines exact_lib text_frame =
     Inr [Text ''Rows: 8'',
          Text (''Date range: 2025-01-01 '' @ ARROW @ '' 2025-08-01''),
          Text ''Means: '',
          Text ''Simple trends: co: decreasing (~-1.00)''] \<and>
   (\<exists>sf. parse_and_sort exact_lib (rename_columns exact_lib text_frame)
            (detect_date_col (rename_columns exact_lib text_frame)) = Inr sf \<and>
         desc_lines exact_lib text_frame =
           Inr (Text (''Rows: '' @ show_nat (len_df text_frame)) #
                spec_date_lines (loaded_dates exact_lib (rename_columns exact_lib text_frame)) @
                Text ''Means: '' #
                spec_trend_lines exact_lib (loaded_dates exact_lib (rename_columns exact_lib text_frame)) sf
                  (pollutants_of (rename_columns exact_lib text_frame))))"
proof -
  have h4: "pollutants_of (rename_columns exact_lib text_frame) \<noteq> []"
    by (simp add: text_frame_pollutants)
  have h5: "list_all (\<lambda>n. list_all (\<lambda>c. \<not> numeric_dtype c)
                (cols_named (rename_columns exact_lib text_frame) n))
              (pollutants_of (rename_columns exact_lib text_frame))"
    unfolding text_frame_pollutants using text_frame_dtypes by simp
  show ?thesis
    using bare_means_line [OF text_frame_loaded sorting_exact text_frame_single h4 h5]
      text_frame_loaded sorting_exact text_frame_single text_frame_pollutants h5 text_frame_report
    by (intro conjI) blast+
qed

text \<open>
  C10 as stated fails on a pollutant column without any value: for the text
  \<^verbatim>\<open>site,pm25\<close>, \<^verbatim>\<open>A,\<close>, \<^verbatim>\<open>B,\<close> the only matched column holds no number, and
  the line is \<^verbatim>\<open>Means: pm25=nan\<close>, not the bare \<^verbatim>\<open>Means: \<close>.
\<close>

theorem bare_means_counterexample:
  "loaded empty_column_frame \<and>
   pollutants_of (rename_columns exact_lib empty_column_frame) = [''pm25''] \<and>
   cols_named (rename_columns exact_lib empty_column_frame) ''pm25'' = [NumCol [None, None]] \<and>
   present [None, None :: rat option] = [] \<and>
   desc_lines exact_lib empty_column_frame = Inr [Text ''Rows: 2'', Text ''Means: pm25=nan'']"
proof -
  have 1: "loaded empty_column_frame"
    "pollutants_of (rename_columns exact_lib empty_column_frame) = [''pm25'']"
    "cols_named (rename_columns exact_lib empty_column_frame) ''pm25'' = [NumCol [None, None]]"
    by (simp_all add: empty_column_frame_def frame_eval)
  show ?thesis using 1 empty_column_frame_report by (simp add: present_def)
qed

end
